theory Spec2Isabelle
  imports Main
begin

section \<open>NetJobs: coordinator and agent, embedded from the Python sources\<close>

text \<open>
  Text on the wire and Python strings are both modelled as \<open>string\<close> (lists of 8-bit
  characters). Python's \<open>None\<close> is the \<open>None\<close> of an option type, a dictionary is a
  map, and a dictionary whose iteration order is observed (\<open>specs\<close>) is an
  association list. Every exception the sources can raise on the modelled paths is a
  value of the type \<open>error\<close>.
\<close>

subsection \<open>Constants of both programs\<close>

definition TIMEOUT_NONE :: int where "TIMEOUT_NONE = 0"
definition MIN_HOSTS_ALL :: int where "MIN_HOSTS_ALL = - 1"
definition BUFFER_SIZE :: nat where "BUFFER_SIZE = 4096"
definition SOCKET_DELIMITER :: string where "SOCKET_DELIMITER = [CHR 0x09]"
definition READY_STRING :: string where "READY_STRING = ''// READY //'' @ [CHR 0x0A]"
definition START_STRING :: string where "START_STRING = ''// START //'' @ [CHR 0x0A]"
definition KILL_STRING :: string where "KILL_STRING = ''// KILL //'' @ [CHR 0x0A]"
definition DONE_STRING :: string where "DONE_STRING = ''// DONE //'' @ [CHR 0x0A]"
definition SUCCESS_STATUS :: string where "SUCCESS_STATUS = ''SUCCESS''"
definition ERROR_STATUS :: string where "ERROR_STATUS = ''ERROR''"
definition TIMEOUT_STATUS :: string where "TIMEOUT_STATUS = ''TIMEOUT''"
definition KILLED_STATUS :: string where "KILLED_STATUS = ''KILLED''"

subsection \<open>Errors\<close>

text \<open>The calls to \<open>sys.exit\<close> of \<open>prep_agents\<close>, by the message they print.\<close>

datatype exit_reason =
  EchoTestFailed | CommandNotAcknowledged | TimeoutNotAcknowledged
  | ReadyNotAcknowledged | ConnectionFailed

datatype error =
  KeyError | IndexError | NameError | TypeError | UnicodeDecodeError
  | UnboundLocalError | SocketTimeout | SocketError | SystemExit exit_reason

subsection \<open>TestConfig\<close>

type_synonym result = "string \<times> string"

record TestConfig =
  label :: string
  generalTimeout :: int
  minHosts :: int
  specs :: "(string \<times> string list) list"
  timeouts :: "string \<rightharpoonup> (string \<rightharpoonup> int option)"
  results :: "string \<rightharpoonup> (string \<rightharpoonup> result option)"
  timeoutsRemaining :: "int option"
  listenerTimeouts :: "string \<rightharpoonup> int option"

text \<open>
  The inner loop of \<open>TestConfig.__init__\<close> over the commands of one target: every
  command gets the result \<open>None\<close>; a timeout that is Python's \<open>None\<close> makes the
  listener timeout \<open>None\<close> and leaves the loop (\<open>break\<close>), any other one is compared
  with the running maximum, which starts at \<open>generalTimeout\<close>. A command without an
  entry in \<open>timeouts[target]\<close> raises \<open>KeyError\<close>.
\<close>

fun init_commands ::
  "(string \<rightharpoonup> int option) option \<Rightarrow> string list \<Rightarrow> (string \<rightharpoonup> result option) \<Rightarrow> int
    \<Rightarrow> error + ((string \<rightharpoonup> result option) \<times> int option)" where
  "init_commands tmo [] rs timeout = Inr (rs, Some timeout)"
| "init_commands tmo (command # cs) rs timeout =
     (let rs' = rs(command \<mapsto> None) in
      case tmo of
        None \<Rightarrow> Inl KeyError
      | Some m \<Rightarrow>
          (case m command of
             None \<Rightarrow> Inl KeyError
           | Some None \<Rightarrow> Inr (rs', None)
           | Some (Some t) \<Rightarrow>
               init_commands tmo cs rs' (if t > timeout then t else timeout)))"

text \<open>The outer loop, over \<open>specs.keys()\<close>.\<close>

fun init_targets ::
  "string list \<Rightarrow> TestConfig \<Rightarrow> error + TestConfig" where
  "init_targets [] cfg = Inr cfg"
| "init_targets (target # ts) cfg =
     (case map_of (specs cfg) target of
        None \<Rightarrow> Inl KeyError
      | Some commands \<Rightarrow>
          (case init_commands (timeouts cfg target) commands Map.empty (generalTimeout cfg) of
             Inl e \<Rightarrow> Inl e
           | Inr (rs, timeout) \<Rightarrow>
               init_targets ts
                 (cfg\<lparr>results := (results cfg)(target \<mapsto> rs),
                      listenerTimeouts := (listenerTimeouts cfg)(target \<mapsto> timeout)\<rparr>)))"

definition TestConfig_init ::
  "string \<Rightarrow> int \<Rightarrow> int \<Rightarrow> (string \<times> string list) list
    \<Rightarrow> (string \<rightharpoonup> (string \<rightharpoonup> int option)) \<Rightarrow> error + TestConfig" where
  "TestConfig_init label' generalTimeout' minHosts' specs' timeouts' =
     init_targets (map fst specs')
       \<lparr>label = label', generalTimeout = generalTimeout', minHosts = minHosts',
        specs = specs', timeouts = timeouts', results = Map.empty,
        timeoutsRemaining = (if minHosts' = 0 then None else Some minHosts'),
        listenerTimeouts = Map.empty\<rparr>"

subsection \<open>The coordinator and its abort policy\<close>

text \<open>
  \<open>sockets\<close> and \<open>listeners\<close> are dictionaries keyed by target; only their keys
  matter here. \<open>killed\<close> records, in order, the listeners whose \<open>kill()\<close> has been
  called (each such call clears that listener's \<open>running\<close> flag and sends KILL).
\<close>

record NetJobs =
  sockets :: "string list"
  listeners :: "string list"
  testAborted :: bool
  killed :: "string list"

definition stop_and_kill_listeners :: "NetJobs \<Rightarrow> NetJobs" where
  "stop_and_kill_listeners nj = nj\<lparr>killed := killed nj @ listeners nj\<rparr>"

definition handle_timeout :: "NetJobs \<Rightarrow> string \<Rightarrow> TestConfig \<Rightarrow> NetJobs \<times> TestConfig" where
  "handle_timeout nj target test =
     (if testAborted nj = False then
        (if minHosts test = MIN_HOSTS_ALL then
           (stop_and_kill_listeners (nj\<lparr>testAborted := True\<rparr>), test)
         else
           (case timeoutsRemaining test of
              None \<Rightarrow> (nj, test)
            | Some r \<Rightarrow>
                (if r < 1 then (stop_and_kill_listeners (nj\<lparr>testAborted := True\<rparr>), test)
                 else (nj, test\<lparr>timeoutsRemaining := Some (r - 1)\<rparr>))))
      else (nj, test))"

text \<open>The state at the start of a test (\<open>NetJobs.start\<close> resets these fields).\<close>

definition fresh :: NetJobs where
  "fresh = \<lparr>sockets = [], listeners = [], testAborted = False, killed = []\<rparr>"

text \<open>One call of \<open>handle_timeout\<close> per failing target, in the order of the failures.\<close>

fun fail_all :: "string list \<Rightarrow> NetJobs \<times> TestConfig \<Rightarrow> NetJobs \<times> TestConfig" where
  "fail_all [] s = s"
| "fail_all (target # ts) (nj, test) = fail_all ts (handle_timeout nj target test)"

subsection \<open>The listener of one agent connection\<close>

text \<open>
  \<open>str.split(sep)\<close> for a separator of one character: the result is never empty, and
  two adjacent separators enclose an empty field.
\<close>

fun split_sep :: "char \<Rightarrow> string \<Rightarrow> string list" where
  "split_sep d [] = [[]]"
| "split_sep d (c # cs) =
     (if c = d then [] # split_sep d cs
      else (case split_sep d cs of [] \<Rightarrow> [[c]] | t # ts \<Rightarrow> (c # t) # ts))"

definition TAB :: char where "TAB = CHR 0x09"

text \<open>Reading \<open>xs[i]\<close> for a non-negative index: out of range raises \<open>IndexError\<close>.\<close>

definition item :: "'a list \<Rightarrow> nat \<Rightarrow> error + 'a" where
  "item xs i = (if i < length xs then Inr (xs ! i) else Inl IndexError)"

text \<open>
  The padding loop \<open>for i in range(0, 4-count): tokens[4-count] = ''\<close>: \<open>n\<close> counts the
  iterations left, \<open>k\<close> is the index \<open>4-count\<close>, the same at every iteration. Writing
  a list element out of range raises \<open>IndexError\<close>.
\<close>

fun pad_tokens :: "nat \<Rightarrow> nat \<Rightarrow> string list \<Rightarrow> error + string list" where
  "pad_tokens 0 k tokens = Inr tokens"
| "pad_tokens (Suc n) k tokens =
     (if k < length tokens then pad_tokens n k (tokens[k := []]) else Inl IndexError)"

definition process_result_string :: "TestConfig \<Rightarrow> string \<Rightarrow> error + TestConfig" where
  "process_result_string test message =
     (let tokens = split_sep TAB message; count = length tokens in
      case (if count < 4 then pad_tokens (4 - count) (4 - count) tokens else Inr tokens) of
        Inl e \<Rightarrow> Inl e
      | Inr tokens \<Rightarrow>
     (case item tokens 0 of Inl e \<Rightarrow> Inl e | Inr target \<Rightarrow>
     (case item tokens 1 of Inl e \<Rightarrow> Inl e | Inr command \<Rightarrow>
     (case item tokens 2 of Inl e \<Rightarrow> Inl e | Inr status \<Rightarrow>
     (case item tokens 3 of Inl e \<Rightarrow> Inl e | Inr output \<Rightarrow>
     (case results test target of
        None \<Rightarrow> Inl KeyError
      | Some rs \<Rightarrow>
          Inr (test\<lparr>results :=
                 (results test)(target \<mapsto> rs(command \<mapsto> Some (status, output)))\<rparr>)))))))"

text \<open>
  \<open>print_signoff\<close>: the loop over \<open>specs[self.target]\<close>. Both dictionary reads raise
  \<open>KeyError\<close> on a missing key; \<open>results[self.target]\<close> is read in the loop body only.
\<close>

fun signoff_commands :: "string \<Rightarrow> string list \<Rightarrow> TestConfig \<Rightarrow> error + TestConfig" where
  "signoff_commands target [] test = Inr test"
| "signoff_commands target (command # cs) test =
     (case results test target of
        None \<Rightarrow> Inl KeyError
      | Some rs \<Rightarrow>
          (case rs command of
             None \<Rightarrow> Inl KeyError
           | Some None \<Rightarrow>
               signoff_commands target cs
                 (test\<lparr>results :=
                    (results test)(target \<mapsto> rs(command \<mapsto> Some (KILLED_STATUS, [])))\<rparr>)
           | Some (Some r) \<Rightarrow> signoff_commands target cs test))"

definition print_signoff :: "string \<Rightarrow> TestConfig \<Rightarrow> error + TestConfig" where
  "print_signoff target test =
     (case map_of (specs test) target of
        None \<Rightarrow> Inl KeyError
      | Some commands \<Rightarrow> signoff_commands target commands test)"

text \<open>
  What one iteration of the loop of \<open>ListenThread.run\<close> meets. \<open>Killed\<close>: another
  thread has called \<open>kill()\<close>, so the \<open>running\<close> flag is found cleared. Otherwise the
  iteration reads the clock (\<open>elapsedTime\<close>, in seconds) and, unless the deadline has
  passed, waits on the socket: nothing to read within \<open>SELECT_TIMEOUT\<close>, a buffer
  that decodes to the given text (empty when the peer has closed), a buffer that is
  not UTF-8, or an exception of \<open>select\<close> or \<open>recv\<close>.
\<close>

datatype sock_event = NotReady | Recv string | Undecodable | SockFailed

datatype tick = Killed | Tick int sock_event

definition expired :: "int option \<Rightarrow> int \<Rightarrow> bool" where
  "expired timeout elapsedTime =
     (case timeout of None \<Rightarrow> False | Some t \<Rightarrow> elapsedTime \<ge> t)"

text \<open>
  The loop. It ends when \<open>running\<close> is cleared: by \<open>kill()\<close>, by DONE, or by the
  listener's own \<open>handle_timeout\<close> (deadline, or the \<open>except\<close> clause around the
  loop). With no further event the listener is still waiting: \<open>None\<close>.
\<close>

fun listen_loop ::
  "string \<Rightarrow> int option \<Rightarrow> tick list \<Rightarrow> NetJobs \<times> TestConfig
    \<Rightarrow> (NetJobs \<times> TestConfig) option" where
  "listen_loop target timeout [] s = None"
| "listen_loop target timeout (Killed # es) s = Some s"
| "listen_loop target timeout (Tick elapsedTime ev # es) (nj, test) =
     (if expired timeout elapsedTime then Some (handle_timeout nj target test)
      else
        (case ev of
           NotReady \<Rightarrow> listen_loop target timeout es (nj, test)
         | SockFailed \<Rightarrow> Some (handle_timeout nj target test)
         | Undecodable \<Rightarrow> Some (handle_timeout nj target test)
         | Recv status \<Rightarrow>
             (if status = [] then listen_loop target timeout es (nj, test)
              else if status = DONE_STRING then Some (nj, test)
              else
                (case process_result_string test status of
                   Inl e \<Rightarrow> Some (handle_timeout nj target test)
                 | Inr test' \<Rightarrow> listen_loop target timeout es (nj, test')))))"

text \<open>
  \<open>ListenThread.run\<close>: a timeout equal to \<open>TIMEOUT_NONE\<close> becomes \<open>None\<close>, the loop
  runs, and \<open>print_signoff\<close> follows it outside the \<open>try\<close>, so its exception is the
  thread's.
\<close>

definition ListenThread_run ::
  "string \<Rightarrow> int option \<Rightarrow> tick list \<Rightarrow> NetJobs \<times> TestConfig
    \<Rightarrow> (error + NetJobs \<times> TestConfig) option" where
  "ListenThread_run target timeout events s =
     (case listen_loop target (if timeout = Some TIMEOUT_NONE then None else timeout) events s of
        None \<Rightarrow> None
      | Some (nj', test') \<Rightarrow>
          Some (case print_signoff target test' of
                  Inl e \<Rightarrow> Inl e
                | Inr test'' \<Rightarrow> Inr (nj', test'')))"

subsection \<open>Preparing the agents\<close>

text \<open>\<open>str\<close> of an integer, as \<open>prep_agents\<close> uses it for the timeout message.\<close>

fun str_nat :: "nat \<Rightarrow> string" where
  "str_nat n =
     (if n < 10 then [''0123456789'' ! n]
      else str_nat (n div 10) @ [''0123456789'' ! (n mod 10)])"

declare str_nat.simps [simp del]

definition str_int :: "int \<Rightarrow> string" where
  "str_int i = (if i < 0 then ''-'' @ str_nat (nat (- i)) else str_nat (nat i))"

definition str_timeout :: "int option \<Rightarrow> string" where
  "str_timeout timeout = (case timeout of None \<Rightarrow> ''None'' | Some i \<Rightarrow> str_int i)"

text \<open>
  The network as \<open>prep_agents\<close> meets it. \<open>create_connection\<close> succeeds, times out or
  fails with another socket error. On a connection each send with its \<open>recv\<close>
  yields the response read, a \<open>socket.timeout\<close>, or another socket error; when the
  peer has no more to say, the \<open>recv\<close> ends in the timeout of \<open>SOCKET_TIMEOUT\<close>
  seconds.
\<close>

datatype io = Resp string | IoTimeout | IoError

datatype conn = Connected "io list" | ConnectTimeout | ConnectError

text \<open>
  How preparing one target fails: by \<open>socket.timeout\<close>, which the first \<open>except\<close>
  clause catches, or by an exception that leaves \<open>prep_agents\<close>: \<open>SystemExit\<close> from a
  \<open>sys.exit\<close> (that of the second \<open>except\<close> clause, for the other socket errors, or
  one of those in the \<open>try\<close> block, which neither clause catches), or \<open>KeyError\<close>.
\<close>

datatype prep_failure = TimedOut | Fatal error

text \<open>One \<open>sendall\<close> of \<open>testBytes\<close>, the \<open>recv\<close> and the comparison of the echo.\<close>

definition exchange :: "string \<Rightarrow> exit_reason \<Rightarrow> io list \<Rightarrow> prep_failure + io list" where
  "exchange testBytes reason ios =
     (case ios of
        [] \<Rightarrow> Inl TimedOut
      | Resp response # rest \<Rightarrow>
          (if response \<noteq> testBytes then Inl (Fatal (SystemExit reason)) else Inr rest)
      | IoTimeout # rest \<Rightarrow> Inl TimedOut
      | IoError # rest \<Rightarrow> Inl (Fatal (SystemExit ConnectionFailed)))"

definition LF :: char where "LF = CHR 0x0A"

fun send_jobs ::
  "(string \<rightharpoonup> int option) \<Rightarrow> string list \<Rightarrow> io list \<Rightarrow> prep_failure + io list" where
  "send_jobs tmo [] ios = Inr ios"
| "send_jobs tmo (command # cs) ios =
     (case tmo command of
        None \<Rightarrow> Inl (Fatal KeyError)
      | Some timeout \<Rightarrow>
          (case exchange (''command'' @ SOCKET_DELIMITER @ command @ [LF])
                  CommandNotAcknowledged ios of
             Inl f \<Rightarrow> Inl f
           | Inr ios' \<Rightarrow>
               (case exchange (''timeout'' @ SOCKET_DELIMITER @ str_timeout timeout @ [LF])
                       TimeoutNotAcknowledged ios' of
                  Inl f \<Rightarrow> Inl f
                | Inr ios'' \<Rightarrow> send_jobs tmo cs ios'')))"

text \<open>The body of the loop of \<open>prep_agents\<close> for one target, up to \<open>self.sockets[target] = sock\<close>.\<close>

definition prep_target :: "TestConfig \<Rightarrow> string \<Rightarrow> conn \<Rightarrow> prep_failure + unit" where
  "prep_target test target c =
     (case c of
        ConnectTimeout \<Rightarrow> Inl TimedOut
      | ConnectError \<Rightarrow> Inl (Fatal (SystemExit ConnectionFailed))
      | Connected ios \<Rightarrow>
     (case exchange (''name'' @ SOCKET_DELIMITER @ target @ [LF]) EchoTestFailed ios of
        Inl f \<Rightarrow> Inl f
      | Inr ios1 \<Rightarrow>
     (case map_of (specs test) target of
        None \<Rightarrow> Inl (Fatal KeyError)
      | Some commands \<Rightarrow>
     (case timeouts test target of
        None \<Rightarrow> Inl (Fatal KeyError)
      | Some tmo \<Rightarrow>
     (case send_jobs tmo commands ios1 of
        Inl f \<Rightarrow> Inl f
      | Inr ios2 \<Rightarrow>
     (case exchange READY_STRING ReadyNotAcknowledged ios2 of
        Inl f \<Rightarrow> Inl f
      | Inr ios3 \<Rightarrow> Inr ()))))))"

text \<open>
  The loop over the targets. In simulation mode nothing is done for a target. A
  timeout goes to \<open>handle_timeout\<close> and the loop goes on; a fatal failure ends the
  coordinator process with that exception.
\<close>

fun prep_targets ::
  "bool \<Rightarrow> (string \<Rightarrow> conn) \<Rightarrow> string list \<Rightarrow> NetJobs \<times> TestConfig
    \<Rightarrow> error + NetJobs \<times> TestConfig" where
  "prep_targets simulate net [] s = Inr s"
| "prep_targets simulate net (target # ts) (nj, test) =
     (if simulate then prep_targets simulate net ts (nj, test)
      else
        (case prep_target test target (net target) of
           Inr u \<Rightarrow> prep_targets simulate net ts (nj\<lparr>sockets := sockets nj @ [target]\<rparr>, test)
         | Inl TimedOut \<Rightarrow> prep_targets simulate net ts (handle_timeout nj target test)
         | Inl (Fatal e) \<Rightarrow> Inl e))"

definition prep_agents ::
  "bool \<Rightarrow> (string \<Rightarrow> conn) \<Rightarrow> NetJobs \<times> TestConfig \<Rightarrow> error + NetJobs \<times> TestConfig" where
  "prep_agents simulate net s = prep_targets simulate net (map fst (specs (snd s))) s"

text \<open>
  The messages \<open>prep_agents\<close> sends to one target, in order, each with the
  \<open>sys.exit\<close> that follows when its echo differs; the exchanges of a list of
  messages, one after the other; and the responses of an agent that echoes each
  message of a list.
\<close>

fun job_messages :: "(string \<rightharpoonup> int option) \<Rightarrow> string list \<Rightarrow> (string \<times> exit_reason) list" where
  "job_messages tmo [] = []"
| "job_messages tmo (command # cs) =
     (case tmo command of
        None \<Rightarrow> []
      | Some timeout \<Rightarrow>
          (''command'' @ SOCKET_DELIMITER @ command @ [LF], CommandNotAcknowledged)
          # (''timeout'' @ SOCKET_DELIMITER @ str_timeout timeout @ [LF], TimeoutNotAcknowledged)
          # job_messages tmo cs)"

definition prep_messages ::
  "string \<Rightarrow> (string \<rightharpoonup> int option) \<Rightarrow> string list \<Rightarrow> (string \<times> exit_reason) list" where
  "prep_messages target tmo commands =
     (''name'' @ SOCKET_DELIMITER @ target @ [LF], EchoTestFailed)
     # job_messages tmo commands @ [(READY_STRING, ReadyNotAcknowledged)]"

fun exchanges :: "(string \<times> exit_reason) list \<Rightarrow> io list \<Rightarrow> prep_failure + io list" where
  "exchanges [] ios = Inr ios"
| "exchanges ((testBytes, reason) # ms) ios =
     (case exchange testBytes reason ios of
        Inl f \<Rightarrow> Inl f
      | Inr ios' \<Rightarrow> exchanges ms ios')"

definition echoes :: "(string \<times> exit_reason) list \<Rightarrow> io list" where
  "echoes ms = map (\<lambda>m. Resp (fst m)) ms"

text \<open>
  Two networks: on the first every agent answers the first message with the one
  byte \<open>x\<close>; on the second every connection is refused.
\<close>

definition garbling_agents :: "string \<Rightarrow> conn" where
  "garbling_agents target = Connected [Resp ''x'']"

definition refusing_agents :: "string \<Rightarrow> conn" where
  "refusing_agents target = ConnectError"

text \<open>
  What \<open>TestConfig.__init__\<close> leaves for a target of a plan whose timeouts are all
  integers: the target is a key of \<open>specs\<close> and of \<open>results\<close>, and every command of
  the target is a key of \<open>results[target]\<close>.
\<close>

definition plan_initialised :: "TestConfig \<Rightarrow> string \<Rightarrow> bool" where
  "plan_initialised test target =
     (case map_of (specs test) target of
        None \<Rightarrow> False
      | Some commands \<Rightarrow>
          (case results test target of
             None \<Rightarrow> False
           | Some rs \<Rightarrow> list_all (\<lambda>command. rs command \<noteq> None) commands))"

text \<open>Reading \<open>results[target][command]\<close> where both keys exist and the entry is set.\<close>

definition stored_result :: "TestConfig \<Rightarrow> string \<Rightarrow> string \<Rightarrow> result option" where
  "stored_result test target command =
     (case results test target of
        None \<Rightarrow> None
      | Some rs \<Rightarrow> (case rs command of None \<Rightarrow> None | Some r \<Rightarrow> r))"

text \<open>
  An event that is a received buffer whose first two fields are the given target and
  command: a record that \<open>process_result_string\<close> stores under that pair.
\<close>

definition names_pair :: "string \<Rightarrow> string \<Rightarrow> tick \<Rightarrow> bool" where
  "names_pair target command ev =
     (case ev of
        Tick elapsedTime (Recv message) \<Rightarrow> take 2 (split_sep TAB message) = [target, command]
      | _ \<Rightarrow> False)"

text \<open>
  Observations of a listener that has exited without an exception of its own: a stored
  result, the coordinator's \<open>testAborted\<close> and the test's \<open>timeoutsRemaining\<close>.
\<close>

definition result_at_exit ::
  "(error + NetJobs \<times> TestConfig) option \<Rightarrow> string \<Rightarrow> string \<Rightarrow> result option" where
  "result_at_exit out target command =
     (case out of Some (Inr (nj, test)) \<Rightarrow> stored_result test target command | _ \<Rightarrow> None)"

definition aborted_at_exit :: "(error + NetJobs \<times> TestConfig) option \<Rightarrow> bool option" where
  "aborted_at_exit out =
     (case out of Some (Inr (nj, test)) \<Rightarrow> Some (testAborted nj) | _ \<Rightarrow> None)"

definition remaining_at_exit :: "(error + NetJobs \<times> TestConfig) option \<Rightarrow> int option" where
  "remaining_at_exit out =
     (case out of Some (Inr (nj, test)) \<Rightarrow> timeoutsRemaining test | _ \<Rightarrow> None)"

text \<open>
  A plan as the parser builds it: one test, \<open>minhosts: 1\<close>, one target \<open>t\<close> with the
  commands \<open>c\<close> and \<open>d\<close>, no timeouts (\<open>TIMEOUT_NONE\<close>).
\<close>

definition example_test :: TestConfig where
  "example_test =
     projr (TestConfig_init ''T'' 0 1 [(''t'', [''c'', ''d''])]
              [''t'' \<mapsto> [''c'' \<mapsto> Some 0, ''d'' \<mapsto> Some 0]])"

text \<open>
  A second plan: the same target and commands, \<open>c\<close> without timeout and \<open>d\<close> with a
  timeout of 5 seconds.
\<close>

definition mixed_timeouts_test :: TestConfig where
  "mixed_timeouts_test =
     projr (TestConfig_init ''T'' 0 1 [(''t'', [''c'', ''d''])]
              [''t'' \<mapsto> [''c'' \<mapsto> Some 0, ''d'' \<mapsto> Some 5]])"

subsection \<open>The agent: subprocesses and their threads\<close>

text \<open>
  What a subprocess leaves in a pipe: bytes that are UTF-8 text, or bytes (at least
  one) that \<open>decode('UTF-8')\<close> rejects.
\<close>

datatype pipe = Utf8 string | NotUtf8

definition decode :: "pipe \<Rightarrow> error + string" where
  "decode b = (case b of Utf8 s \<Rightarrow> Inr s | NotUtf8 \<Rightarrow> Inl UnicodeDecodeError)"

text \<open>The truth value of a bytes object: it is not empty.\<close>

definition truthy :: "pipe \<Rightarrow> bool" where
  "truthy b = (case b of Utf8 s \<Rightarrow> s \<noteq> [] | NotUtf8 \<Rightarrow> True)"

text \<open>
  What one check of the loop condition of \<open>ProcThread.run\<close> finds: the subprocess has
  exited (\<open>poll()\<close> gives its return code); it is still running, the clock read in the
  body giving \<open>elapsedTime\<close>; or the \<open>SOSThread\<close> has called
  \<open>stop_and_kill_subproc(reason)\<close> on this thread in the meantime.
\<close>

datatype poll = Exited | StillRunning int | Stopped string

text \<open>
  A subprocess: what \<open>communicate()\<close> returns and leaves in \<open>returncode\<close> (negative
  when a signal ended the process), and what the thread that watches it finds, check
  after check.
\<close>

record Popen =
  returncode :: int
  stdout_data :: pipe
  stderr_data :: pipe
  polled :: "poll list"

record ProcThread =
  thread_running :: bool
  thread_command :: string
  thread_timeout :: "int option"
  thread_proc :: Popen
  thread_result :: string

text \<open>\<open>stop_and_kill_subproc\<close>; \<open>nm\<close> is the global \<open>name\<close>.\<close>

definition stop_and_kill_subproc :: "string \<Rightarrow> string \<Rightarrow> ProcThread \<Rightarrow> ProcThread" where
  "stop_and_kill_subproc nm reason t =
     t\<lparr>thread_running := False,
       thread_result := nm @ SOCKET_DELIMITER @ thread_command t @ SOCKET_DELIMITER @ reason\<rparr>"

text \<open>
  \<open>str(e)\<close> for the \<open>TypeError\<close> of \<open>elapsedTime >= self.timeout\<close> when the timeout is
  \<open>None\<close> (the text of CPython 3.6 and later).
\<close>

definition unorderable :: string where
  "unorderable =
     [CHR 0x27] @ ''>='' @ [CHR 0x27] @ '' not supported between instances of ''
     @ [CHR 0x27] @ ''float'' @ [CHR 0x27] @ '' and '' @ [CHR 0x27] @ ''NoneType'' @ [CHR 0x27]"

text \<open>
  The loop of \<open>ProcThread.run\<close> with its \<open>except\<close> clause. With no further check the
  thread is still in the loop: \<open>None\<close>.
\<close>

fun run_loop :: "string \<Rightarrow> poll list \<Rightarrow> ProcThread \<Rightarrow> ProcThread option" where
  "run_loop nm [] t = None"
| "run_loop nm (Exited # ps) t = Some t"
| "run_loop nm (Stopped reason # ps) t = Some (stop_and_kill_subproc nm reason t)"
| "run_loop nm (StillRunning elapsedTime # ps) t =
     (case thread_timeout t of
        None \<Rightarrow>
          Some (stop_and_kill_subproc nm (ERROR_STATUS @ SOCKET_DELIMITER @ unorderable) t)
      | Some tm \<Rightarrow>
          (if elapsedTime \<ge> tm
           then Some (stop_and_kill_subproc nm (TIMEOUT_STATUS @ SOCKET_DELIMITER) t)
           else run_loop nm ps t))"

text \<open>
  The first block of \<open>send_result\<close>: the record is composed here unless
  \<open>stop_and_kill_subproc\<close> has set one.
\<close>

definition compose_result :: "string \<Rightarrow> ProcThread \<Rightarrow> error + string" where
  "compose_result nm t =
     (if thread_result t = ''NONE'' then
        (let output = stdout_data (thread_proc t); errors = stderr_data (thread_proc t) in
         if returncode (thread_proc t) > 0 \<or> truthy errors then
           (case decode errors of
              Inl e \<Rightarrow> Inl e
            | Inr text \<Rightarrow>
                Inr (nm @ SOCKET_DELIMITER @ thread_command t @ SOCKET_DELIMITER
                     @ ERROR_STATUS @ SOCKET_DELIMITER @ text))
         else
           (case decode output of
              Inl e \<Rightarrow> Inl e
            | Inr text \<Rightarrow>
                Inr (nm @ SOCKET_DELIMITER @ thread_command t @ SOCKET_DELIMITER
                     @ SUCCESS_STATUS @ SOCKET_DELIMITER @ text)))
      else Inr (thread_result t))"

text \<open>
  \<open>send_result\<close>: the thread afterwards and the text handed to \<open>sendall\<close> (an
  exception of \<open>sendall\<close> is caught and changes nothing else). The name
  \<open>resultString\<close> is bound nowhere in the module, so the branch for a record longer
  than \<open>BUFFER_SIZE\<close> raises \<open>NameError\<close>.
\<close>

definition send_result :: "string \<Rightarrow> ProcThread \<Rightarrow> error + ProcThread \<times> string" where
  "send_result nm t =
     (case compose_result nm t of
        Inl e \<Rightarrow> Inl e
      | Inr r \<Rightarrow>
          (if length r > BUFFER_SIZE then Inl NameError
           else Inr (t\<lparr>thread_result := r\<rparr>, r)))"

definition ProcThread_run :: "string \<Rightarrow> ProcThread \<Rightarrow> (error + ProcThread \<times> string) option" where
  "ProcThread_run nm t =
     (case run_loop nm (polled (thread_proc t)) (t\<lparr>thread_running := True\<rparr>) of
        None \<Rightarrow> None
      | Some t' \<Rightarrow> Some (send_result nm t'))"

subsection \<open>The agent: one connection\<close>

text \<open>
  \<open>start_run\<close>. \<open>popen\<close> is \<open>subprocess.Popen\<close>, \<open>None\<close> when it raises: the exception
  is caught and printed, and the thread is then made with the value \<open>proc\<close> has from
  an earlier iteration; in the first iteration \<open>proc\<close> is unbound.
\<close>

fun start_threads ::
  "(string \<Rightarrow> Popen option) \<Rightarrow> string list \<Rightarrow> int option list \<Rightarrow> nat list \<Rightarrow> Popen option
    \<Rightarrow> ProcThread list \<Rightarrow> error + ProcThread list" where
  "start_threads popen commands tmos [] proc threads = Inr threads"
| "start_threads popen commands tmos (i # is) proc threads =
     (let command = commands ! i; timeout = tmos ! i;
          proc' = (case popen command of Some p \<Rightarrow> Some p | None \<Rightarrow> proc) in
      case proc' of
        None \<Rightarrow> Inl UnboundLocalError
      | Some p \<Rightarrow>
          start_threads popen commands tmos is proc'
            (threads @ [\<lparr>thread_running = False, thread_command = command,
                          thread_timeout = timeout, thread_proc = p,
                          thread_result = ''NONE''\<rparr>]))"

definition start_run ::
  "(string \<Rightarrow> Popen option) \<Rightarrow> string list \<Rightarrow> int option list \<Rightarrow> ProcThread list
    \<Rightarrow> error + ProcThread list" where
  "start_run popen commands tmos threads =
     start_threads popen commands tmos [0..<min (length commands) (length tmos)] None threads"

text \<open>
  The globals of the agent, and \<open>sent\<close>: the texts handed to \<open>sendall\<close> on the
  connection, in order.
\<close>

record Agent =
  name :: string
  ready :: bool
  sosTimeout :: int
  subthreads :: "ProcThread list"
  sent :: "string list"

text \<open>
  What a \<open>recv\<close> of the agent gives: bytes that are the given text, bytes that are
  not UTF-8, nothing because the peer has closed the connection, or an exception.
  When the events are used up the peer stays silent and \<open>recv\<close> raises
  \<open>socket.timeout\<close> after \<open>SOCKET_TIMEOUT\<close> seconds.
\<close>

datatype agent_recv = Text string | Raw string | Closed | Raised

text \<open>
  The loop of \<open>get_specs\<close>. \<open>int_py\<close> is Python's \<open>int\<close> on a string, \<open>None\<close> for
  \<open>ValueError\<close>. In the \<open>try\<close> block an exception of \<open>recv\<close> or of the echo's
  \<open>sendall\<close> (\<open>Raised\<close>, or silence) leaves the loop, as does one of \<open>decode\<close>,
  which comes after the echo. The result: the globals, \<open>commands\<close>, \<open>timeouts\<close>, and
  the events not yet read.
\<close>

fun get_specs_loop ::
  "(string \<Rightarrow> int option) \<Rightarrow> agent_recv list \<Rightarrow> Agent \<Rightarrow> string list \<Rightarrow> int option list
    \<Rightarrow> Agent \<times> string list \<times> int option list \<times> agent_recv list" where
  "get_specs_loop int_py [] a commands tmos = (a, commands, tmos, [])"
| "get_specs_loop int_py (Raised # es) a commands tmos = (a, commands, tmos, es)"
| "get_specs_loop int_py (Raw b # es) a commands tmos =
     (a\<lparr>sent := sent a @ [b]\<rparr>, commands, tmos, es)"
| "get_specs_loop int_py (Closed # es) a commands tmos =
     (a\<lparr>sent := sent a @ [[]]\<rparr>, commands, tmos, Closed # es)"
| "get_specs_loop int_py (Text receiveString # es) a commands tmos =
     (let a = a\<lparr>sent := sent a @ [receiveString]\<rparr> in
      if receiveString = READY_STRING then (a\<lparr>ready := True\<rparr>, commands, tmos, es)
      else
        (let tokens = split_sep TAB (filter (\<lambda>c. c \<noteq> LF) receiveString) in
         if length tokens < 2 then (a, commands, tmos, es)
         else if tokens ! 0 = ''name'' then
           get_specs_loop int_py es (a\<lparr>name := tokens ! 1\<rparr>) commands tmos
         else if tokens ! 0 = ''command'' then
           get_specs_loop int_py es a (commands @ [tokens ! 1]) tmos
         else if tokens ! 0 = ''timeout'' then
           (case int_py (tokens ! 1) of
              None \<Rightarrow> (a, commands, tmos, es)
            | Some timeout \<Rightarrow>
                (if timeout = TIMEOUT_NONE then
                   get_specs_loop int_py es a commands (tmos @ [None])
                 else
                   get_specs_loop int_py es
                     (a\<lparr>sosTimeout := (if timeout > sosTimeout a then timeout else sosTimeout a)\<rparr>)
                     commands (tmos @ [Some timeout])))
         else (a, commands, tmos, es)))"

definition get_specs ::
  "(string \<Rightarrow> int option) \<Rightarrow> agent_recv list \<Rightarrow> Agent
    \<Rightarrow> Agent \<times> string list \<times> int option list \<times> agent_recv list" where
  "get_specs int_py events a =
     (let a = a\<lparr>sosTimeout := TIMEOUT_NONE\<rparr> in
      if ready a then (a, [], [], events) else get_specs_loop int_py events a [] [])"

text \<open>
  The loop \<open>while ready\<close> of \<open>main\<close>, entered with \<open>ready\<close> set. Nothing here is in a
  \<open>try\<close> block: an exception of \<open>recv\<close>, of \<open>decode\<close> or of \<open>start_run\<close> is the
  agent's. On a connection that the peer has closed every \<open>recv\<close> returns the empty
  buffer at once and the loop does not end: \<open>None\<close>.
\<close>

fun await_start ::
  "(string \<Rightarrow> Popen option) \<Rightarrow> string list \<Rightarrow> int option list \<Rightarrow> agent_recv list \<Rightarrow> Agent
    \<Rightarrow> (error + Agent) option" where
  "await_start popen commands tmos [] a = Some (Inl SocketTimeout)"
| "await_start popen commands tmos (Raised # es) a = Some (Inl SocketError)"
| "await_start popen commands tmos (Closed # es) a = None"
| "await_start popen commands tmos (Raw b # es) a = Some (Inl UnicodeDecodeError)"
| "await_start popen commands tmos (Text status # es) a =
     (if status = [] then await_start popen commands tmos es a
      else if status = START_STRING then
        (case start_run popen commands tmos (subthreads a) of
           Inl e \<Rightarrow> Some (Inl e)
         | Inr threads \<Rightarrow> Some (Inr (a\<lparr>subthreads := threads, ready := False\<rparr>)))
      else Some (Inr (a\<lparr>ready := False\<rparr>)))"

text \<open>
  \<open>for t in subthreads: t.join()\<close>: every thread runs to its \<open>send_result\<close>. The
  threads run side by side; their texts are listed in the order of \<open>subthreads\<close>. A
  thread that ends in an exception has sent nothing.
\<close>

fun join_threads :: "string \<Rightarrow> ProcThread list \<Rightarrow> string list \<Rightarrow> string list option" where
  "join_threads nm [] s = Some s"
| "join_threads nm (t # ts) s =
     (case ProcThread_run nm t of
        None \<Rightarrow> None
      | Some (Inl e) \<Rightarrow> join_threads nm ts s
      | Some (Inr (t', r)) \<Rightarrow> join_threads nm ts (s @ [r]))"

text \<open>
  The body of the loop of \<open>main\<close> for one accepted connection, up to \<open>sock.close()\<close>.
\<close>

definition serve ::
  "(string \<Rightarrow> Popen option) \<Rightarrow> (string \<Rightarrow> int option) \<Rightarrow> agent_recv list
    \<Rightarrow> (error + Agent) option" where
  "serve popen int_py events =
     (case get_specs int_py events
             \<lparr>name = [], ready = False, sosTimeout = TIMEOUT_NONE, subthreads = [], sent = []\<rparr> of
        (a, commands, tmos, rest) \<Rightarrow>
          (case (if ready a then await_start popen commands tmos rest a else Some (Inr a)) of
             None \<Rightarrow> None
           | Some (Inl e) \<Rightarrow> Some (Inl e)
           | Some (Inr a') \<Rightarrow>
               (case join_threads (name a') (subthreads a') (sent a') of
                  None \<Rightarrow> None
                | Some s \<Rightarrow> Some (Inr (a'\<lparr>sent := s @ [DONE_STRING]\<rparr>)))))"

subsection \<open>Messages, and sample surroundings of the agent\<close>

text \<open>
  A message after which \<open>get_specs\<close> reads on (a name, a command, or a timeout that
  \<open>int\<close> accepts), and a message of at least two fields whose first field is none
  of the three keys.
\<close>

definition configures :: "(string \<Rightarrow> int option) \<Rightarrow> string \<Rightarrow> bool" where
  "configures int_py message =
     (message \<noteq> READY_STRING \<and>
      (let tokens = split_sep TAB (filter (\<lambda>c. c \<noteq> LF) message) in
       2 \<le> length tokens \<and>
       (tokens ! 0 = ''name'' \<or> tokens ! 0 = ''command''
        \<or> (tokens ! 0 = ''timeout'' \<and> int_py (tokens ! 1) \<noteq> None))))"

definition unknown_key :: "string \<Rightarrow> bool" where
  "unknown_key message =
     (message \<noteq> READY_STRING \<and>
      (let tokens = split_sep TAB (filter (\<lambda>c. c \<noteq> LF) message) in
       2 \<le> length tokens \<and> tokens ! 0 \<noteq> ''name'' \<and> tokens ! 0 \<noteq> ''command''
       \<and> tokens ! 0 \<noteq> ''timeout''))"

text \<open>
  Python's \<open>int\<close> on the decimal numerals without sign; a \<open>Popen\<close> whose subprocess
  prints \<open>hi\<close> and exits with 0 before the first check; and what an agent has handed
  to \<open>sendall\<close> when it closes the connection.
\<close>

fun digits_value :: "string \<Rightarrow> nat \<Rightarrow> nat option" where
  "digits_value [] v = Some v"
| "digits_value (c # cs) v =
     (if c \<in> set ''0123456789''
      then digits_value cs (10 * v + (of_char c - 48)) else None)"

definition int_of_numeral :: "string \<Rightarrow> int option" where
  "int_of_numeral s = (if s = [] then None else map_option int (digits_value s 0))"

definition echo_hi :: "string \<Rightarrow> Popen option" where
  "echo_hi command =
     Some \<lparr>returncode = 0, stdout_data = Utf8 ''hi'', stderr_data = Utf8 [], polled = [Exited]\<rparr>"

definition sent_at_close :: "(error + Agent) option \<Rightarrow> string list" where
  "sent_at_close r = (case r of Some (Inr a) \<Rightarrow> sent a | _ \<Rightarrow> [])"

section \<open>Properties\<close>

lemmas const_defs =
  TIMEOUT_NONE_def MIN_HOSTS_ALL_def BUFFER_SIZE_def SOCKET_DELIMITER_def
  READY_STRING_def START_STRING_def KILL_STRING_def DONE_STRING_def
  SUCCESS_STATUS_def ERROR_STATUS_def TIMEOUT_STATUS_def KILLED_STATUS_def TAB_def

subsection \<open>The abort policy counts failures against \<open>minHosts\<close> itself\<close>

text \<open>
  Once the test is aborted it stays aborted, and while it is not, each failure takes
  one from \<open>timeoutsRemaining\<close>, which \<open>TestConfig.__init__\<close> sets to \<open>minHosts\<close>. So
  a test with \<open>minHosts = K > 0\<close> is aborted by its \<open>(K+1)\<close>-th failure, whatever the
  number of targets.
\<close>

lemma fail_all_aborted_stays:
  "testAborted nj \<Longrightarrow> testAborted (fst (fail_all ts (nj, test)))"
  by (induction ts arbitrary: nj test) (auto simp: handle_timeout_def)

lemma fail_all_aborted_iff:
  "minHosts test \<noteq> MIN_HOSTS_ALL \<Longrightarrow> timeoutsRemaining test = Some r \<Longrightarrow> 0 \<le> r
    \<Longrightarrow> \<not> testAborted nj
    \<Longrightarrow> testAborted (fst (fail_all ts (nj, test))) \<longleftrightarrow> r < int (length ts)"
proof (induction ts arbitrary: nj test r)
  case Nil
  then show ?case by simp
next
  case (Cons t ts)
  show ?case
  proof (cases "r < 1")
    case True
    with Cons.prems show ?thesis
      by (auto simp: handle_timeout_def stop_and_kill_listeners_def
               intro!: fail_all_aborted_stays)
  next
    case False
    with Cons.prems
    have step: "handle_timeout nj t test = (nj, test\<lparr>timeoutsRemaining := Some (r - 1)\<rparr>)"
      by (simp add: handle_timeout_def)
    have "testAborted (fst (fail_all ts (nj, test\<lparr>timeoutsRemaining := Some (r - 1)\<rparr>)))
            \<longleftrightarrow> r - 1 < int (length ts)"
      using Cons.prems False by (intro Cons.IH) auto
    with step show ?thesis by auto
  qed
qed

text \<open>
  C1. The claim: with N targets, \<open>minHosts = K\<close> and M failing targets the test is not
  aborted iff \<open>N - M \<ge> K\<close>. The code at N = 3, K = 1: after M = 2 failures one target
  is left, \<open>N - M = 1 \<ge> K\<close>, and the test is aborted; it is not aborted after one
  failure.
\<close>

theorem minhosts_one_of_three_aborts_after_two_failures:
  "\<exists>test. TestConfig_init ''T'' 0 1 [(''a'', [''x'']), (''b'', [''x'']), (''c'', [''x''])]
            (\<lambda>target. Some (\<lambda>command. Some (Some 0))) = Inr test
     \<and> length (specs test) = 3 \<and> minHosts test = 1
     \<and> testAborted (fst (fail_all [''a'', ''b''] (fresh, test)))
     \<and> \<not> testAborted (fst (fail_all [''a''] (fresh, test)))"
  by (simp add: TestConfig_init_def handle_timeout_def stop_and_kill_listeners_def
        fresh_def const_defs)

subsection \<open>Records with fewer than four fields\<close>

lemma split_sep_not_Nil: "split_sep d s \<noteq> []"
  by (cases s) (simp_all split: list.split)

text \<open>
  The padding loop writes at the index \<open>4 - count\<close>: out of range for one and two
  fields; for three fields it overwrites the command field and leaves the list at
  three elements, so that \<open>tokens[3]\<close> is out of range.
\<close>

lemma short_record_always_raises:
  "length (split_sep TAB message) < 4 \<Longrightarrow> process_result_string test message = Inl IndexError"
proof -
  assume short: "length (split_sep TAB message) < 4"
  obtain x xs where toks: "split_sep TAB message = x # xs"
    using split_sep_not_Nil [of TAB message] by (auto simp: neq_Nil_conv)
  then consider "xs = []" | y where "xs = [y]" | y z where "xs = [y, z]"
    using short by (cases xs; cases "tl xs"; cases "tl (tl xs)") auto
  then show ?thesis
    using toks by cases (simp_all add: process_result_string_def item_def numeral_eq_Suc)
qed

text \<open>
  C8. The claim: a record of one, two or three fields is padded with empty strings
  and parsed without an out-of-bounds error. The code on a record of three, of two
  and of one field: \<open>IndexError\<close> each time, and nothing is stored.
\<close>

theorem short_record_raises_IndexError:
  "process_result_string test (''t1'' @ [TAB] @ ''echo hi'' @ [TAB] @ ''SUCCESS'') = Inl IndexError
   \<and> process_result_string test (''t1'' @ [TAB] @ ''echo hi'') = Inl IndexError
   \<and> process_result_string test ''t1'' = Inl IndexError"
  by (simp add: process_result_string_def item_def TAB_def numeral_eq_Suc)

subsection \<open>What the listener keeps of the plan\<close>

lemma handle_timeout_keeps:
  "handle_timeout nj target test = (nj', test') \<Longrightarrow> specs test' = specs test \<and> results test' = results test"
  by (auto simp: handle_timeout_def split: if_splits option.splits)

lemma handle_timeout_initialised:
  "handle_timeout nj target test = (nj', test') \<Longrightarrow> plan_initialised test' t = plan_initialised test t"
  by (drule handle_timeout_keeps) (auto simp: plan_initialised_def split: option.splits)

lemma process_result_string_keeps:
  assumes "process_result_string test message = Inr test'"
  shows "specs test' = specs test"
    and "results test t = Some rs \<Longrightarrow> \<exists>rs'. results test' t = Some rs' \<and> (\<forall>c. rs c \<noteq> None \<longrightarrow> rs' c \<noteq> None)"
  using assms
  by (auto simp: process_result_string_def Let_def split: sum.splits option.splits if_splits)

lemma process_result_string_initialised:
  "process_result_string test message = Inr test' \<Longrightarrow> plan_initialised test target
    \<Longrightarrow> plan_initialised test' target"
  unfolding plan_initialised_def
  apply (clarsimp split: option.splits simp: process_result_string_keeps(1))
  apply (frule (1) process_result_string_keeps(2))
  apply (auto simp: list_all_iff)
  done

lemma listen_loop_initialised:
  "listen_loop target timeout events (nj, test) = Some (nj1, test1) \<Longrightarrow> plan_initialised test t
    \<Longrightarrow> plan_initialised test1 t \<and> specs test1 = specs test"
proof (induction target timeout events "(nj, test)" arbitrary: nj test rule: listen_loop.induct)
  case (1 target timeout s)
  then show ?case by simp
next
  case (2 target timeout es s)
  then show ?case by simp
next
  case (3 target timeout elapsedTime ev es nj test)
  show ?case
  proof (cases "expired timeout elapsedTime")
    case True
    with 3 show ?thesis
      by (auto simp: handle_timeout_initialised dest: handle_timeout_keeps)
  next
    case False
    show ?thesis
    proof (cases ev)
      case NotReady
      with 3 False show ?thesis by simp
    next
      case (Recv status)
      show ?thesis
      proof (cases "status = [] \<or> status = DONE_STRING")
        case True
        with 3 False Recv show ?thesis by (auto split: if_splits)
      next
        case ne: False
        show ?thesis
        proof (cases "process_result_string test status")
          case (Inl e)
          with 3 False Recv ne show ?thesis
            by (auto simp: handle_timeout_initialised dest: handle_timeout_keeps)
        next
          case (Inr test')
          with 3 False Recv ne
          have "plan_initialised test1 t \<and> specs test1 = specs test'"
            by (auto intro: process_result_string_initialised)
          with Inr show ?thesis by (simp add: process_result_string_keeps(1))
        qed
      qed
    next
      case Undecodable
      with 3 False show ?thesis
        by (auto simp: handle_timeout_initialised dest: handle_timeout_keeps)
    next
      case SockFailed
      with 3 False show ?thesis
        by (auto simp: handle_timeout_initialised dest: handle_timeout_keeps)
    qed
  qed
qed

lemma signoff_commands_total:
  "results test target = Some rs \<Longrightarrow> \<forall>c\<in>set cs. rs c \<noteq> None
   \<Longrightarrow> \<exists>test2. signoff_commands target cs test = Inr test2
        \<and> specs test2 = specs test
        \<and> results test2 target =
            Some (\<lambda>c. if c \<in> set cs \<and> rs c = Some None then Some (Some (KILLED_STATUS, [])) else rs c)"
proof (induction cs arbitrary: test rs)
  case Nil
  then show ?case by simp
next
  case (Cons c cs)
  from Cons.prems obtain v where v: "rs c = Some v" by auto
  show ?case
  proof (cases v)
    case None
    let ?rs = "rs(c \<mapsto> Some (KILLED_STATUS, []))"
    let ?t = "test\<lparr>results := (results test)(target \<mapsto> ?rs)\<rparr>"
    have "\<exists>test2. signoff_commands target cs ?t = Inr test2
        \<and> specs test2 = specs ?t
        \<and> results test2 target =
            Some (\<lambda>x. if x \<in> set cs \<and> ?rs x = Some None then Some (Some (KILLED_STATUS, [])) else ?rs x)"
      using Cons.prems by (intro Cons.IH) auto
    then show ?thesis using Cons.prems v None by (auto simp: fun_eq_iff)
  next
    case (Some r)
    have "\<exists>test2. signoff_commands target cs test = Inr test2
        \<and> specs test2 = specs test
        \<and> results test2 target =
            Some (\<lambda>x. if x \<in> set cs \<and> rs x = Some None then Some (Some (KILLED_STATUS, [])) else rs x)"
      using Cons.prems by (intro Cons.IH) auto
    then show ?thesis using Cons.prems v Some by (auto simp: fun_eq_iff)
  qed
qed

text \<open>A record of at least four fields is stored under its first two fields.\<close>

lemma four_fields_not_control:
  "split_sep TAB message = tgt # cmd # st # outp # rest \<Longrightarrow> message \<noteq> [] \<and> message \<noteq> DONE_STRING"
  by (auto simp: DONE_STRING_def TAB_def)

lemma process_four_fields:
  "split_sep TAB message = tgt # cmd # st # outp # rest \<Longrightarrow>
   process_result_string test message =
     (case results test tgt of
        None \<Rightarrow> Inl KeyError
      | Some rs \<Rightarrow> Inr (test\<lparr>results := (results test)(tgt \<mapsto> rs(cmd \<mapsto> Some (st, outp)))\<rparr>))"
  by (simp add: process_result_string_def item_def)

text \<open>
  Only such a record is stored at all, and storing it leaves every other entry as it
  was; so does \<open>handle_timeout\<close>.
\<close>

lemma process_result_string_fields:
  assumes "process_result_string test message = Inr test'"
  shows "\<exists>tgt cmd st outp rest rs. split_sep TAB message = tgt # cmd # st # outp # rest
           \<and> results test tgt = Some rs
           \<and> test' = test\<lparr>results := (results test)(tgt \<mapsto> rs(cmd \<mapsto> Some (st, outp)))\<rparr>"
proof -
  have len: "\<not> length (split_sep TAB message) < 4"
    using assms short_record_always_raises [of message test] by auto
  then obtain tgt cmd st outp rest where f: "split_sep TAB message = tgt # cmd # st # outp # rest"
    by (cases "split_sep TAB message"; cases "tl (split_sep TAB message)";
        cases "tl (tl (split_sep TAB message))"; cases "tl (tl (tl (split_sep TAB message)))") auto
  with assms show ?thesis
    by (auto simp: process_four_fields [OF f] split: option.splits)
qed

lemma process_result_string_other:
  assumes "process_result_string test message = Inr test'"
      and "take 2 (split_sep TAB message) \<noteq> [target, command]"
      and "results test target = Some rs"
  shows "\<exists>rs'. results test' target = Some rs' \<and> rs' command = rs command"
  using process_result_string_fields [OF assms(1)] assms(2,3) by auto

lemma handle_timeout_results:
  "results (snd (handle_timeout nj target test)) = results test"
  by (auto simp: handle_timeout_def split: option.splits)

lemma listen_loop_other:
  "listen_loop target timeout events (nj, test) = Some (nj1, test1)
    \<Longrightarrow> list_all (\<lambda>ev. \<not> names_pair t command ev) events
    \<Longrightarrow> results test t = Some rs
    \<Longrightarrow> \<exists>rs1. results test1 t = Some rs1 \<and> rs1 command = rs command"
proof (induction target timeout events "(nj, test)" arbitrary: nj test rs rule: listen_loop.induct)
  case (1 target timeout s)
  then show ?case by simp
next
  case (2 target timeout es s)
  then show ?case by simp
next
  case (3 target timeout elapsedTime ev es nj test)
  have ht: "\<And>nj' test'. handle_timeout nj target test = (nj', test') \<Longrightarrow> results test' = results test"
    using handle_timeout_results [of nj target test] by simp
  show ?case
  proof (cases "expired timeout elapsedTime")
    case True
    with 3 show ?thesis by (auto dest: ht)
  next
    case False
    show ?thesis
    proof (cases ev)
      case NotReady
      with 3 False show ?thesis by simp
    next
      case (Recv status)
      show ?thesis
      proof (cases "status = [] \<or> status = DONE_STRING")
        case True
        with 3 False Recv show ?thesis by (auto split: if_splits)
      next
        case ne: False
        show ?thesis
        proof (cases "process_result_string test status")
          case (Inl e)
          with 3 False Recv ne show ?thesis by (auto dest: ht)
        next
          case (Inr test')
          from "3.prems"(2) Recv have "take 2 (split_sep TAB status) \<noteq> [t, command]"
            by (simp add: names_pair_def)
          from process_result_string_other [OF Inr this "3.prems"(3)]
          obtain rs' where rs': "results test' t = Some rs'" "rs' command = rs command" by blast
          from ne have ne1: "status \<noteq> []" and ne2: "status \<noteq> DONE_STRING" by auto
          have run: "listen_loop target timeout es (nj, test') = Some (nj1, test1)"
            using "3.prems"(1) False Recv ne Inr by simp
          have rest: "list_all (\<lambda>ev. \<not> names_pair t command ev) es"
            using "3.prems"(2) by simp
          have "\<exists>rs1. results test1 t = Some rs1 \<and> rs1 command = rs' command"
            by (rule "3.hyps"(3) [OF False Recv ne1 ne2 Inr run rest rs'(1)])
          with rs' show ?thesis by simp
        qed
      qed
    next
      case Undecodable
      with 3 False show ?thesis by (auto dest: ht)
    next
      case SockFailed
      with 3 False show ?thesis by (auto dest: ht)
    qed
  qed
qed

lemma listen_loop_append:
  "listen_loop target timeout pre (nj, test) = None
    \<Longrightarrow> \<exists>nj' test'. (\<forall>post. listen_loop target timeout (pre @ post) (nj, test)
                               = listen_loop target timeout post (nj', test'))
          \<and> specs test' = specs test
          \<and> (\<forall>t. plan_initialised test t \<longrightarrow> plan_initialised test' t)"
proof (induction target timeout pre "(nj, test)" arbitrary: nj test rule: listen_loop.induct)
  case (1 target timeout s)
  then show ?case by auto
next
  case (2 target timeout es s)
  then show ?case by simp
next
  case (3 target timeout elapsedTime ev es nj test)
  from "3.prems" have live: "\<not> expired timeout elapsedTime" by (auto split: if_splits)
  show ?case
  proof (cases ev)
    case NotReady
    with 3 live show ?thesis by simp
  next
    case (Recv status)
    show ?thesis
    proof (cases "status = []")
      case True
      with 3 live Recv show ?thesis by simp
    next
      case ne: False
      with "3.prems" live Recv have nd: "status \<noteq> DONE_STRING" by (auto split: if_splits)
      from "3.prems" live Recv ne nd obtain test0 where
        p: "process_result_string test status = Inr test0"
        by (cases "process_result_string test status") auto
      from "3.prems" live Recv ne nd p
      have "listen_loop target timeout es (nj, test0) = None" by simp
      from "3.hyps"(3) [OF live Recv ne nd p this]
      obtain nj' test' where
        a: "\<forall>post. listen_loop target timeout (es @ post) (nj, test0)
                               = listen_loop target timeout post (nj', test')"
        and b: "specs test' = specs test0"
        and c: "\<forall>t. plan_initialised test0 t \<longrightarrow> plan_initialised test' t"
        by blast
      have "\<forall>post. listen_loop target timeout ((Tick elapsedTime ev # es) @ post) (nj, test)
                               = listen_loop target timeout post (nj', test')"
        using a live Recv ne nd p by simp
      moreover have "specs test' = specs test"
        using b process_result_string_keeps(1) [OF p] by simp
      moreover have "\<forall>t. plan_initialised test t \<longrightarrow> plan_initialised test' t"
        using c process_result_string_initialised [OF p] by blast
      ultimately show ?thesis by blast
    qed
  next
    case Undecodable
    with 3 live show ?thesis by simp
  next
    case SockFailed
    with 3 live show ?thesis by simp
  qed
qed

subsection \<open>Every pair of the plan has a result when the listener has exited\<close>

lemmas listener_defs =
  ListenThread_run_def print_signoff_def process_result_string_def item_def expired_def
  handle_timeout_def stop_and_kill_listeners_def fresh_def example_test_def TestConfig_init_def
  result_at_exit_def aborted_at_exit_def remaining_at_exit_def stored_result_def

text \<open>
  The listener's exit on an initialised plan: \<open>print_signoff\<close> does not raise, and it
  replaces exactly the unset entries of the target's commands by \<open>(KILLED, "")\<close>.
\<close>

lemma listener_exit_signoff:
  assumes init: "plan_initialised test target"
      and run: "ListenThread_run target timeout events (nj, test) = Some out"
  shows "\<exists>nj1 test1 test2 commands rs1.
           listen_loop target (if timeout = Some TIMEOUT_NONE then None else timeout) events (nj, test)
             = Some (nj1, test1)
         \<and> out = Inr (nj1, test2)
         \<and> map_of (specs test) target = Some commands
         \<and> results test1 target = Some rs1
         \<and> (\<forall>c\<in>set commands. rs1 c \<noteq> None)
         \<and> results test2 target =
             Some (\<lambda>c. if c \<in> set commands \<and> rs1 c = Some None
                        then Some (Some (KILLED_STATUS, [])) else rs1 c)"
proof -
  let ?tmo = "if timeout = Some TIMEOUT_NONE then None else timeout"
  from run obtain nj1 test1 where
    loop: "listen_loop target ?tmo events (nj, test) = Some (nj1, test1)"
    by (auto simp: ListenThread_run_def split: option.splits)
  from listen_loop_initialised [OF loop init]
  have init1: "plan_initialised test1 target" and sp: "specs test1 = specs test" by auto
  from init1 obtain commands rs1 where
    cs: "map_of (specs test1) target = Some commands" and
    rs1: "results test1 target = Some rs1" and
    keys: "\<forall>c\<in>set commands. rs1 c \<noteq> None"
    by (auto simp: plan_initialised_def list_all_iff split: option.splits)
  from signoff_commands_total [OF rs1 keys] obtain test2 where
    so: "signoff_commands target commands test1 = Inr test2" and
    rs2: "results test2 target =
            Some (\<lambda>c. if c \<in> set commands \<and> rs1 c = Some None
                       then Some (Some (KILLED_STATUS, [])) else rs1 c)"
    by blast
  have out: "out = Inr (nj1, test2)"
    using run loop cs so by (simp add: ListenThread_run_def print_signoff_def)
  from loop out cs sp rs1 rs2 keys show ?thesis by auto
qed

text \<open>
  C2, as the code has it. For a target whose plan \<open>TestConfig.__init__\<close> has
  initialised, a listener that exits does so without an exception of \<open>print_signoff\<close>,
  and every command of the target's plan then has a stored \<open>(status, output)\<close>: the
  pair \<open>(KILLED, "")\<close> where the entry was still unset when the loop ended, and
  otherwise the entry as the loop left it. What the loop leaves is what it received:
  a record of at least four fields for this target and a command, read while the
  listener is running and before the deadline, and followed by no record for the
  same pair, is at exit the result of that pair, its third and fourth field
  unchanged; and a command of the plan that is unset at the start and for which no
  record arrives has the result \<open>(KILLED, "")\<close>.
\<close>

theorem listener_exit_defines_every_pair:
  assumes init: "plan_initialised test target"
      and run: "ListenThread_run target timeout events (nj, test) = Some out"
  shows "(\<exists>nj1 test1 test2 commands rs1 rs2.
           listen_loop target (if timeout = Some TIMEOUT_NONE then None else timeout) events (nj, test)
             = Some (nj1, test1)
         \<and> out = Inr (nj1, test2)
         \<and> map_of (specs test) target = Some commands
         \<and> results test1 target = Some rs1 \<and> results test2 target = Some rs2
         \<and> list_all (\<lambda>command.
              \<exists>status output. rs2 command = Some (Some (status, output))
                \<and> (if rs1 command = Some None then (status, output) = (KILLED_STATUS, [])
                    else rs1 command = Some (Some (status, output)))) commands)
       \<and> (\<forall>pre elapsedTime message es command status output rest.
            events = pre @ Tick elapsedTime (Recv message) # es
            \<and> listen_loop target (if timeout = Some TIMEOUT_NONE then None else timeout) pre (nj, test)
                = None
            \<and> \<not> expired (if timeout = Some TIMEOUT_NONE then None else timeout) elapsedTime
            \<and> split_sep TAB message = target # command # status # output # rest
            \<and> list_all (\<lambda>ev. \<not> names_pair target command ev) es
            \<longrightarrow> result_at_exit (Some out) target command = Some (status, output))
       \<and> (\<forall>commands rs command.
            map_of (specs test) target = Some commands \<and> command \<in> set commands
            \<and> results test target = Some rs \<and> rs command = Some None
            \<and> list_all (\<lambda>ev. \<not> names_pair target command ev) events
            \<longrightarrow> result_at_exit (Some out) target command = Some (KILLED_STATUS, []))"
proof -
  let ?tmo = "if timeout = Some TIMEOUT_NONE then None else timeout"
  from listener_exit_signoff [OF init run] obtain nj1 test1 test2 commands rs1 where
    loop: "listen_loop target ?tmo events (nj, test) = Some (nj1, test1)" and
    out: "out = Inr (nj1, test2)" and
    cs: "map_of (specs test) target = Some commands" and
    rs1: "results test1 target = Some rs1" and
    keys: "\<forall>c\<in>set commands. rs1 c \<noteq> None" and
    rs2: "results test2 target =
            Some (\<lambda>c. if c \<in> set commands \<and> rs1 c = Some None
                       then Some (Some (KILLED_STATUS, [])) else rs1 c)"
    by blast
  have at_exit: "\<And>command r. rs1 command = Some (Some r)
                   \<Longrightarrow> result_at_exit (Some out) target command = Some r"
    using out rs2 by (simp add: result_at_exit_def stored_result_def)
  have unset: "\<And>command. command \<in> set commands \<Longrightarrow> rs1 command = Some None
                   \<Longrightarrow> result_at_exit (Some out) target command = Some (KILLED_STATUS, [])"
    using out rs2 by (simp add: result_at_exit_def stored_result_def)
  have A: "\<exists>nj1 test1 test2 commands rs1 rs2.
           listen_loop target ?tmo events (nj, test) = Some (nj1, test1)
         \<and> out = Inr (nj1, test2)
         \<and> map_of (specs test) target = Some commands
         \<and> results test1 target = Some rs1 \<and> results test2 target = Some rs2
         \<and> list_all (\<lambda>command.
              \<exists>status output. rs2 command = Some (Some (status, output))
                \<and> (if rs1 command = Some None then (status, output) = (KILLED_STATUS, [])
                    else rs1 command = Some (Some (status, output)))) commands"
  proof -
    have "list_all (\<lambda>command.
              \<exists>status output.
                (if command \<in> set commands \<and> rs1 command = Some None
                       then Some (Some (KILLED_STATUS, [])) else rs1 command) = Some (Some (status, output))
                \<and> (if rs1 command = Some None then (status, output) = (KILLED_STATUS, [])
                    else rs1 command = Some (Some (status, output)))) commands"
      using keys by (auto simp: list_all_iff)
    with loop out cs rs1 rs2 show ?thesis by auto
  qed
  have B: "result_at_exit (Some out) target command = Some (status, outp)"
    if ev: "events = pre @ Tick elapsedTime (Recv message) # es"
      and pre: "listen_loop target ?tmo pre (nj, test) = None"
      and live: "\<not> expired ?tmo elapsedTime"
      and fields: "split_sep TAB message = target # command # status # outp # rest"
      and later: "list_all (\<lambda>ev. \<not> names_pair target command ev) es"
    for pre elapsedTime message es command status outp rest
  proof -
    from listen_loop_append [OF pre] obtain nj' test' where
      app: "\<And>post. listen_loop target ?tmo (pre @ post) (nj, test)
                      = listen_loop target ?tmo post (nj', test')" and
      init': "plan_initialised test' target"
      using init by blast
    from init' obtain rs' where rs': "results test' target = Some rs'"
      by (auto simp: plan_initialised_def split: option.splits)
    let ?test = "test'\<lparr>results := (results test')(target \<mapsto> rs'(command \<mapsto> Some (status, outp)))\<rparr>"
    have step: "listen_loop target ?tmo (Tick elapsedTime (Recv message) # es) (nj', test')
                 = listen_loop target ?tmo es (nj', ?test)"
      using four_fields_not_control [OF fields] live rs'
      by (simp add: process_four_fields [OF fields])
    have "listen_loop target ?tmo es (nj', ?test) = Some (nj1, test1)"
      using loop ev app step by simp
    from listen_loop_other [OF this later, of "rs'(command \<mapsto> Some (status, outp))"] rs1
    have "rs1 command = Some (Some (status, outp))" by simp
    then show ?thesis by (rule at_exit)
  qed
  have C: "result_at_exit (Some out) target command = Some (KILLED_STATUS, [])"
    if "map_of (specs test) target = Some commands'" and "command \<in> set commands'"
      and "results test target = Some rs" and "rs command = Some None"
      and "list_all (\<lambda>ev. \<not> names_pair target command ev) events"
    for commands' rs command
  proof -
    from listen_loop_other [OF loop that(5) that(3)] rs1 that(4)
    have "rs1 command = Some None" by simp
    moreover from that(1,2) cs have "command \<in> set commands" by simp
    ultimately show ?thesis by (intro unset)
  qed
  from A B C show ?thesis by blast
qed

theorem listener_exit_defines_every_pair_witness:
  "plan_initialised example_test ''t''
   \<and> ListenThread_run ''t'' (Some 0)
        [Tick 0 (Recv (''t'' @ [TAB] @ ''c'' @ [TAB] @ ''SUCCESS'' @ [TAB] @ ''hi'')),
         Tick 1 (Recv DONE_STRING)] (fresh, example_test) \<noteq> None
   \<and> listen_loop ''t'' (if Some 0 = Some TIMEOUT_NONE then None else Some 0) [] (fresh, example_test)
       = None
   \<and> \<not> expired (if Some 0 = Some TIMEOUT_NONE then None else Some 0) 0
   \<and> split_sep TAB (''t'' @ [TAB] @ ''c'' @ [TAB] @ ''SUCCESS'' @ [TAB] @ ''hi'')
       = [''t'', ''c'', ''SUCCESS'', ''hi'']
   \<and> list_all (\<lambda>ev. \<not> names_pair ''t'' ''c'' ev) [Tick 1 (Recv DONE_STRING)]
   \<and> result_at_exit
       (ListenThread_run ''t'' (Some 0)
          [Tick 0 (Recv (''t'' @ [TAB] @ ''c'' @ [TAB] @ ''SUCCESS'' @ [TAB] @ ''hi'')),
           Tick 1 (Recv DONE_STRING)] (fresh, example_test)) ''t'' ''c''
       = Some (''SUCCESS'', ''hi'')
   \<and> map_of (specs example_test) ''t'' = Some [''c'', ''d'']
   \<and> stored_result example_test ''t'' ''d'' = None
   \<and> list_all (\<lambda>ev. \<not> names_pair ''t'' ''d'' ev)
        [Tick 0 (Recv (''t'' @ [TAB] @ ''c'' @ [TAB] @ ''SUCCESS'' @ [TAB] @ ''hi'')),
         Tick 1 (Recv DONE_STRING)]
   \<and> result_at_exit
       (ListenThread_run ''t'' (Some 0)
          [Tick 0 (Recv (''t'' @ [TAB] @ ''c'' @ [TAB] @ ''SUCCESS'' @ [TAB] @ ''hi'')),
           Tick 1 (Recv DONE_STRING)] (fresh, example_test)) ''t'' ''d''
       = Some (KILLED_STATUS, [])"
proof -
  let ?m = "''t'' @ [TAB] @ ''c'' @ [TAB] @ ''SUCCESS'' @ [TAB] @ ''hi''"
  let ?events = "[Tick 0 (Recv ?m), Tick 1 (Recv DONE_STRING)]"
  let ?run = "ListenThread_run ''t'' (Some 0) ?events (fresh, example_test)"
  have h1: "plan_initialised example_test ''t''"
    by (simp add: example_test_def plan_initialised_def TestConfig_init_def)
  obtain out where h2: "?run = Some out"
    by (simp add: listener_defs const_defs)
  have cs: "map_of (specs example_test) ''t'' = Some [''c'', ''d'']"
    by (simp add: example_test_def TestConfig_init_def)
  obtain rs where rs: "results example_test ''t'' = Some rs" "rs ''d'' = Some None"
    by (simp add: example_test_def TestConfig_init_def)
  have sr: "stored_result example_test ''t'' ''d'' = None"
    using rs by (simp add: stored_result_def)
  have pre: "listen_loop ''t'' (if Some 0 = Some TIMEOUT_NONE then None else Some 0) [] (fresh, example_test) = None"
    by simp
  have live: "\<not> expired (if Some 0 = Some TIMEOUT_NONE then None else Some 0) 0"
    by (simp add: expired_def TIMEOUT_NONE_def)
  have f: "split_sep TAB ?m = [''t'', ''c'', ''SUCCESS'', ''hi'']"
    by (simp add: TAB_def)
  have later: "list_all (\<lambda>ev. \<not> names_pair ''t'' ''c'' ev) [Tick 1 (Recv DONE_STRING)]"
    by (simp add: names_pair_def TAB_def DONE_STRING_def)
  have none: "list_all (\<lambda>ev. \<not> names_pair ''t'' ''d'' ev) ?events"
    by (simp add: names_pair_def TAB_def DONE_STRING_def)
  note t = listener_exit_defines_every_pair [OF h1 h2]
  from t have B: "\<forall>pre elapsedTime message es command status output rest.
            ?events = pre @ Tick elapsedTime (Recv message) # es
            \<and> listen_loop ''t'' (if Some 0 = Some TIMEOUT_NONE then None else Some 0) pre (fresh, example_test)
                = None
            \<and> \<not> expired (if Some 0 = Some TIMEOUT_NONE then None else Some 0) elapsedTime
            \<and> split_sep TAB message = ''t'' # command # status # output # rest
            \<and> list_all (\<lambda>ev. \<not> names_pair ''t'' command ev) es
            \<longrightarrow> result_at_exit (Some out) ''t'' command = Some (status, output)"
    by blast
  from t have C: "\<forall>commands rs command.
            map_of (specs example_test) ''t'' = Some commands \<and> command \<in> set commands
            \<and> results example_test ''t'' = Some rs \<and> rs command = Some None
            \<and> list_all (\<lambda>ev. \<not> names_pair ''t'' command ev) ?events
            \<longrightarrow> result_at_exit (Some out) ''t'' command = Some (KILLED_STATUS, [])"
    by blast
  have c: "result_at_exit (Some out) ''t'' ''c'' = Some (''SUCCESS'', ''hi'')"
    using B [rule_format, of "[]" 0 ?m "[Tick 1 (Recv DONE_STRING)]" "''c''" "''SUCCESS''" "''hi''" "[]"]
      pre live f later by simp
  have d: "result_at_exit (Some out) ''t'' ''d'' = Some (KILLED_STATUS, [])"
    using C [rule_format, of "[''c'', ''d'']" "''d''" rs] cs rs none by simp
  from h1 h2 pre live f later c cs sr none d show ?thesis by simp
qed

text \<open>
  The claim also bounds the status by the four status words. The listener stores the
  third field of a record without looking at it: a record for a pair of the plan
  with the status \<open>BOGUS\<close> leaves that status in the results.
\<close>

theorem listener_stores_unchecked_status:
  "result_at_exit
     (ListenThread_run ''t'' (Some 0)
        [Tick 0 (Recv (''t'' @ [TAB] @ ''c'' @ [TAB] @ ''BOGUS'' @ [TAB] @ ''x'')),
         Tick 1 (Recv DONE_STRING)] (fresh, example_test)) ''t'' ''c''
     = Some (''BOGUS'', ''x'')
   \<and> map_of (specs example_test) ''t'' = Some [''c'', ''d'']
   \<and> ''BOGUS'' \<notin> {SUCCESS_STATUS, ERROR_STATUS, TIMEOUT_STATUS, KILLED_STATUS}"
  by (simp add: listener_defs const_defs)

subsection \<open>Where a received record is stored\<close>

text \<open>
  C10, as the code has it. A record of at least four fields that arrives before the
  deadline is stored under its own first two fields. If its target field is not a
  key of \<open>results\<close>, the read \<open>results[target]\<close> raises, the \<open>except\<close> clause calls
  \<open>handle_timeout\<close> for the listener's target, and the listener exits through
  \<open>print_signoff\<close>. If its target field is a key of \<open>results\<close>, the store succeeds
  whatever the command field is, and the listener goes on with the next event.
\<close>

theorem record_stored_under_its_own_fields:
  assumes fields: "split_sep TAB message = tgt # cmd # st # outp # rest"
      and live: "\<not> expired (if timeout = Some TIMEOUT_NONE then None else timeout) elapsedTime"
  shows "(results test tgt = None \<longrightarrow>
            ListenThread_run target timeout (Tick elapsedTime (Recv message) # es) (nj, test)
              = Some (case print_signoff target (snd (handle_timeout nj target test)) of
                        Inl e \<Rightarrow> Inl e
                      | Inr test' \<Rightarrow> Inr (fst (handle_timeout nj target test), test')))
       \<and> (\<forall>rs. results test tgt = Some rs \<longrightarrow>
            process_result_string test message
              = Inr (test\<lparr>results := (results test)(tgt \<mapsto> rs(cmd \<mapsto> Some (st, outp)))\<rparr>)
          \<and> ListenThread_run target timeout (Tick elapsedTime (Recv message) # es) (nj, test)
              = ListenThread_run target timeout es
                  (nj, test\<lparr>results := (results test)(tgt \<mapsto> rs(cmd \<mapsto> Some (st, outp)))\<rparr>))"
  using four_fields_not_control [OF fields] live
  by (auto simp: ListenThread_run_def process_four_fields [OF fields]
        split: prod.splits sum.splits)

theorem record_stored_under_its_own_fields_witness:
  "split_sep TAB (''u'' @ [TAB] @ ''c'' @ [TAB] @ ''SUCCESS'' @ [TAB] @ ''x'')
     = [''u'', ''c'', ''SUCCESS'', ''x'']
   \<and> \<not> expired (if Some 0 = Some TIMEOUT_NONE then None else Some 0) 3
   \<and> results example_test ''u'' = None
   \<and> ListenThread_run ''t'' (Some 0)
        [Tick 3 (Recv (''u'' @ [TAB] @ ''c'' @ [TAB] @ ''SUCCESS'' @ [TAB] @ ''x''))]
        (fresh, example_test)
      = Some (case print_signoff ''t'' (snd (handle_timeout fresh ''t'' example_test)) of
                Inl e \<Rightarrow> Inl e
              | Inr test' \<Rightarrow> Inr (fst (handle_timeout fresh ''t'' example_test), test'))
   \<and> remaining_at_exit
        (ListenThread_run ''t'' (Some 0)
           [Tick 3 (Recv (''u'' @ [TAB] @ ''c'' @ [TAB] @ ''SUCCESS'' @ [TAB] @ ''x''))]
           (fresh, example_test)) = Some 0
   \<and> timeoutsRemaining example_test = Some 1"
proof -
  have f: "split_sep TAB (''u'' @ [TAB] @ ''c'' @ [TAB] @ ''SUCCESS'' @ [TAB] @ ''x'')
     = ''u'' # ''c'' # ''SUCCESS'' # ''x'' # []"
    by (simp add: TAB_def)
  have l: "\<not> expired (if Some 0 = Some TIMEOUT_NONE then None else Some 0) 3"
    by (simp add: expired_def TIMEOUT_NONE_def)
  have k: "results example_test ''u'' = None"
    by (simp add: example_test_def TestConfig_init_def)
  have r: "timeoutsRemaining example_test = Some 1"
    by (simp add: example_test_def TestConfig_init_def)
  note t = record_stored_under_its_own_fields [OF f l, where test = example_test and target = "''t''" and es = "[]" and nj = fresh]
  from t k have run: "ListenThread_run ''t'' (Some 0)
        [Tick 3 (Recv (''u'' @ [TAB] @ ''c'' @ [TAB] @ ''SUCCESS'' @ [TAB] @ ''x''))]
        (fresh, example_test)
      = Some (case print_signoff ''t'' (snd (handle_timeout fresh ''t'' example_test)) of
                Inl e \<Rightarrow> Inl e
              | Inr test' \<Rightarrow> Inr (fst (handle_timeout fresh ''t'' example_test), test'))"
    by blast
  have "remaining_at_exit (Some (case print_signoff ''t'' (snd (handle_timeout fresh ''t'' example_test)) of
                Inl e \<Rightarrow> Inl e
              | Inr test' \<Rightarrow> Inr (fst (handle_timeout fresh ''t'' example_test), test'))) = Some 0"
    by (simp add: listener_defs const_defs)
  with f l k r run show ?thesis by simp
qed

text \<open>
  The claim has the store raise for a command that is not in the target's plan.
  Assigning to a new key of a dictionary does not raise: the record is stored as a
  further entry, \<open>handle_timeout\<close> is not called (\<open>timeoutsRemaining\<close> and
  \<open>testAborted\<close> are as before) and the listener runs on to DONE.
\<close>

theorem unplanned_command_is_stored_without_raising:
  "result_at_exit
     (ListenThread_run ''t'' (Some 0)
        [Tick 0 (Recv (''t'' @ [TAB] @ ''zz'' @ [TAB] @ ''SUCCESS'' @ [TAB] @ ''x'')),
         Tick 1 (Recv DONE_STRING)] (fresh, example_test)) ''t'' ''zz''
     = Some (''SUCCESS'', ''x'')
   \<and> remaining_at_exit
     (ListenThread_run ''t'' (Some 0)
        [Tick 0 (Recv (''t'' @ [TAB] @ ''zz'' @ [TAB] @ ''SUCCESS'' @ [TAB] @ ''x'')),
         Tick 1 (Recv DONE_STRING)] (fresh, example_test)) = timeoutsRemaining example_test
   \<and> aborted_at_exit
     (ListenThread_run ''t'' (Some 0)
        [Tick 0 (Recv (''t'' @ [TAB] @ ''zz'' @ [TAB] @ ''SUCCESS'' @ [TAB] @ ''x'')),
         Tick 1 (Recv DONE_STRING)] (fresh, example_test)) = Some False
   \<and> map_of (specs example_test) ''t'' = Some [''c'', ''d'']
   \<and> ''zz'' \<notin> set [''c'', ''d'']"
  by (simp add: listener_defs const_defs)

subsection \<open>Failures while the agents are prepared\<close>

text \<open>
  Preparing one target is the exchange of its messages in order, and after \<open>k\<close>
  echoed messages the next event decides.
\<close>

lemma exchanges_append:
  "exchanges (a @ b) ios = (case exchanges a ios of Inl f \<Rightarrow> Inl f | Inr ios' \<Rightarrow> exchanges b ios')"
  by (induction a ios rule: exchanges.induct) (auto split: sum.splits)

lemma send_jobs_exchanges:
  "list_all (\<lambda>c. tmo c \<noteq> None) cs \<Longrightarrow> send_jobs tmo cs ios = exchanges (job_messages tmo cs) ios"
  by (induction cs arbitrary: ios) (auto split: sum.splits option.splits)

lemma prep_target_exchanges:
  assumes "map_of (specs test) target = Some commands" "timeouts test target = Some tmo"
      "list_all (\<lambda>c. tmo c \<noteq> None) commands"
  shows "prep_target test target (Connected ios) =
           (case exchanges (prep_messages target tmo commands) ios of
              Inl f \<Rightarrow> Inl f | Inr ios' \<Rightarrow> Inr ())"
  using assms
  by (auto simp: prep_target_def prep_messages_def exchanges_append send_jobs_exchanges
           split: sum.splits)

lemma exchanges_echoes:
  "exchanges ms (echoes (take k ms) @ ios) = exchanges (drop k ms) ios"
proof (induction ms arbitrary: k)
  case Nil
  then show ?case by (simp add: echoes_def)
next
  case (Cons m ms)
  obtain testBytes reason where m: "m = (testBytes, reason)" by (cases m)
  show ?case
  proof (cases k)
    case 0
    then show ?thesis by (simp add: echoes_def)
  next
    case (Suc j)
    with Cons.IH [of j] m show ?thesis by (simp add: echoes_def exchange_def)
  qed
qed

lemma exchanges_at:
  assumes "k < length ms"
  shows "exchanges ms (echoes (take k ms) @ ios) =
           (case exchange (fst (ms ! k)) (snd (ms ! k)) ios of
              Inl f \<Rightarrow> Inl f | Inr ios' \<Rightarrow> exchanges (drop (Suc k) ms) ios')"
proof -
  obtain testBytes reason where m: "ms ! k = (testBytes, reason)" by (cases "ms ! k")
  from assms have "drop k ms = ms ! k # drop (Suc k) ms"
    by (simp add: Cons_nth_drop_Suc)
  with m show ?thesis by (simp add: exchanges_echoes)
qed

lemma prep_target_at:
  assumes "map_of (specs test) target = Some commands" "timeouts test target = Some tmo"
      "list_all (\<lambda>c. tmo c \<noteq> None) commands"
      "k < length (prep_messages target tmo commands)"
  shows "prep_target test target (Connected (echoes (take k (prep_messages target tmo commands)) @ ios)) =
           (case exchange (fst (prep_messages target tmo commands ! k))
                   (snd (prep_messages target tmo commands ! k)) ios of
              Inl f \<Rightarrow> Inl f
            | Inr ios' \<Rightarrow>
                (case exchanges (drop (Suc k) (prep_messages target tmo commands)) ios' of
                   Inl f \<Rightarrow> Inl f | Inr ios'' \<Rightarrow> Inr ()))"
  by (simp add: prep_target_exchanges [OF assms(1,2,3)] exchanges_at [OF assms(4)] split: sum.splits)

text \<open>
  C4, as the code has it. For a target of the plan, after any number \<open>k\<close> of
  correctly echoed messages: a \<open>socket.timeout\<close> (of the connection attempt, or of
  a send or a read, as when the agent says nothing more) goes to \<open>handle_timeout\<close>
  for that target and the loop goes on with the other targets; any other socket
  error (of the connection attempt, or of a send or a read) ends the coordinator
  with the \<open>sys.exit\<close> of the second \<open>except\<close> clause; and an echo that differs from
  the message sent, be it the name, a command, a timeout or READY, ends the
  coordinator with the \<open>sys.exit\<close> of that message.
\<close>

theorem prepare_failure_by_kind:
  assumes plan: "map_of (specs test) target = Some commands" "timeouts test target = Some tmo"
      "list_all (\<lambda>c. tmo c \<noteq> None) commands"
    and k: "k < length (prep_messages target tmo commands)"
  shows "(net target = ConnectTimeout
          \<or> net target = Connected (echoes (take k (prep_messages target tmo commands)))
          \<or> (\<exists>rest. net target =
                Connected (echoes (take k (prep_messages target tmo commands)) @ IoTimeout # rest))
          \<longrightarrow> prep_targets False net (target # ts) (nj, test)
                = prep_targets False net ts (handle_timeout nj target test))
       \<and> (net target = ConnectError
          \<or> (\<exists>rest. net target =
                Connected (echoes (take k (prep_messages target tmo commands)) @ IoError # rest))
          \<longrightarrow> prep_targets False net (target # ts) (nj, test) = Inl (SystemExit ConnectionFailed))
       \<and> (\<forall>response rest.
            net target =
              Connected (echoes (take k (prep_messages target tmo commands)) @ Resp response # rest)
            \<and> response \<noteq> fst (prep_messages target tmo commands ! k)
          \<longrightarrow> prep_targets False net (target # ts) (nj, test)
                = Inl (SystemExit (snd (prep_messages target tmo commands ! k))))"
proof -
  let ?ms = "prep_messages target tmo commands"
  note at = prep_target_at [OF plan k]
  have a: "prep_target test target ConnectTimeout = Inl TimedOut"
    by (simp add: prep_target_def)
  have b: "prep_target test target (Connected (echoes (take k ?ms))) = Inl TimedOut"
    using at [of "[]"] by (simp add: exchange_def)
  have c: "\<And>rest. prep_target test target (Connected (echoes (take k ?ms) @ IoTimeout # rest)) = Inl TimedOut"
    using at by (simp add: exchange_def)
  have d: "prep_target test target ConnectError = Inl (Fatal (SystemExit ConnectionFailed))"
    by (simp add: prep_target_def)
  have e: "\<And>rest. prep_target test target (Connected (echoes (take k ?ms) @ IoError # rest))
             = Inl (Fatal (SystemExit ConnectionFailed))"
    using at by (simp add: exchange_def)
  have f: "\<And>response rest. response \<noteq> fst (?ms ! k) \<Longrightarrow>
             prep_target test target (Connected (echoes (take k ?ms) @ Resp response # rest))
             = Inl (Fatal (SystemExit (snd (?ms ! k))))"
    using at by (simp add: exchange_def)
  show ?thesis
    using a b c d e f by (auto simp del: prep_target_def)
qed

theorem prepare_failure_by_kind_witness:
  "map_of (specs example_test) ''t'' = Some [''c'', ''d'']
   \<and> timeouts example_test ''t'' = Some [''c'' \<mapsto> Some 0, ''d'' \<mapsto> Some 0]
   \<and> list_all (\<lambda>c. [''c'' \<mapsto> Some (0::int), ''d'' \<mapsto> Some 0] c \<noteq> None) [''c'', ''d'']
   \<and> 3 < length (prep_messages ''t'' [''c'' \<mapsto> Some 0, ''d'' \<mapsto> Some 0] [''c'', ''d''])
   \<and> prep_targets False
        (\<lambda>target. Connected
           (echoes (take 3 (prep_messages ''t'' [''c'' \<mapsto> Some 0, ''d'' \<mapsto> Some 0] [''c'', ''d'']))))
        [''t''] (fresh, example_test)
      = Inr (handle_timeout fresh ''t'' example_test)
   \<and> timeoutsRemaining example_test = Some 1
   \<and> timeoutsRemaining (snd (handle_timeout fresh ''t'' example_test)) = Some 0
   \<and> ''x'' \<noteq> fst (prep_messages ''t'' [''c'' \<mapsto> Some 0, ''d'' \<mapsto> Some 0] [''c'', ''d''] ! 3)
   \<and> prep_targets False
        (\<lambda>target. Connected
           (echoes (take 3 (prep_messages ''t'' [''c'' \<mapsto> Some 0, ''d'' \<mapsto> Some 0] [''c'', ''d'']))
            @ Resp ''x'' # []))
        [''t''] (fresh, example_test)
      = Inl (SystemExit CommandNotAcknowledged)
   \<and> prep_targets False (\<lambda>target. ConnectError) [''t''] (fresh, example_test)
      = Inl (SystemExit ConnectionFailed)"
proof -
  let ?tmo = "[''c'' \<mapsto> Some (0::int), ''d'' \<mapsto> Some 0]"
  let ?ms = "prep_messages ''t'' ?tmo [''c'', ''d'']"
  have p1: "map_of (specs example_test) ''t'' = Some [''c'', ''d'']"
    by (simp add: example_test_def TestConfig_init_def)
  have p2: "timeouts example_test ''t'' = Some ?tmo"
    by (simp add: example_test_def TestConfig_init_def)
  have p3: "list_all (\<lambda>c. ?tmo c \<noteq> None) [''c'', ''d'']"
    by simp
  have k: "3 < length ?ms"
    by (simp add: prep_messages_def)
  have r1: "timeoutsRemaining example_test = Some 1"
    by (simp add: example_test_def TestConfig_init_def)
  have r0: "timeoutsRemaining (snd (handle_timeout fresh ''t'' example_test)) = Some 0"
    by (simp add: listener_defs const_defs)
  have x: "''x'' \<noteq> fst (?ms ! 3)"
    by (simp add: prep_messages_def numeral_eq_Suc)
  have sn: "snd (?ms ! 3) = CommandNotAcknowledged"
    by (simp add: prep_messages_def numeral_eq_Suc)
  note t = prepare_failure_by_kind [OF p1 p2 p3 k, where ts = "[]" and nj = fresh]
  have a: "prep_targets False (\<lambda>target. Connected (echoes (take 3 ?ms))) [''t''] (fresh, example_test)
      = Inr (handle_timeout fresh ''t'' example_test)"
    using t [where net = "\<lambda>target. Connected (echoes (take 3 ?ms))"] by simp
  have b: "prep_targets False (\<lambda>target. Connected (echoes (take 3 ?ms) @ Resp ''x'' # []))
        [''t''] (fresh, example_test) = Inl (SystemExit CommandNotAcknowledged)"
    using t [where net = "\<lambda>target. Connected (echoes (take 3 ?ms) @ Resp ''x'' # [])"] x sn
    by simp
  have c: "prep_targets False (\<lambda>target. ConnectError) [''t''] (fresh, example_test)
      = Inl (SystemExit ConnectionFailed)"
    using t [where net = "\<lambda>target. ConnectError"] by simp
  from p1 p2 p3 k a r1 r0 x b c show ?thesis by blast
qed

text \<open>
  The claim has every such failure handled by \<open>handle_timeout\<close>. An agent that
  answers the name message with another byte, and a connection that is refused, each
  end the coordinator process instead, at the plan's first target.
\<close>

theorem echo_mismatch_ends_the_coordinator:
  "prep_agents False garbling_agents (fresh, example_test) = Inl (SystemExit EchoTestFailed)
   \<and> prep_agents False refusing_agents (fresh, example_test) = Inl (SystemExit ConnectionFailed)
   \<and> map fst (specs example_test) = [''t'']"
  by (simp add: prep_agents_def prep_target_def exchange_def garbling_agents_def
        refusing_agents_def example_test_def TestConfig_init_def fresh_def const_defs LF_def)

subsection \<open>The record of a subprocess that has exited\<close>

text \<open>
  A thread that \<open>stop_and_kill_subproc\<close> has stopped has a result other than the
  initial \<open>NONE\<close>; a thread whose subprocess exits before the timeout leaves the loop
  as it entered it.
\<close>

lemma stopped_thread_has_a_result:
  "thread_result (stop_and_kill_subproc nm reason t) \<noteq> ''NONE''"
  by (auto simp: stop_and_kill_subproc_def SOCKET_DELIMITER_def append_eq_Cons_conv
        dest!: arg_cong [where f = set])




subsection \<open>Records longer than the socket buffer\<close>

text \<open>Whatever the record, the branch for a record of more than 4096 characters raises.\<close>

lemma oversized_record_raises:
  "compose_result nm t = Inr r \<Longrightarrow> BUFFER_SIZE < length r \<Longrightarrow> send_result nm t = Inl NameError"
  by (simp add: send_result_def)

text \<open>
  C7. The claim: a record that would exceed 4096 bytes is truncated to fit and then
  sent, and never faults. The code on the record of a subprocess for the command
  \<open>yes\<close> of the agent \<open>a\<close> that exits with 0 after printing 5000 times \<open>x\<close>:
  \<open>send_result\<close> raises \<open>NameError\<close>, the thread ends with it, and nothing is sent
  for the command.
\<close>

theorem oversized_record_raises_NameError:
  "compose_result ''a''
     \<lparr>thread_running = False, thread_command = ''yes'', thread_timeout = Some 5,
      thread_proc = \<lparr>returncode = 0, stdout_data = Utf8 (replicate 5000 (CHR ''x'')),
                     stderr_data = Utf8 [], polled = [Exited]\<rparr>,
      thread_result = ''NONE''\<rparr>
     = Inr (''a'' @ SOCKET_DELIMITER @ ''yes'' @ SOCKET_DELIMITER @ SUCCESS_STATUS
            @ SOCKET_DELIMITER @ replicate 5000 (CHR ''x''))
   \<and> send_result ''a''
     \<lparr>thread_running = False, thread_command = ''yes'', thread_timeout = Some 5,
      thread_proc = \<lparr>returncode = 0, stdout_data = Utf8 (replicate 5000 (CHR ''x'')),
                     stderr_data = Utf8 [], polled = [Exited]\<rparr>,
      thread_result = ''NONE''\<rparr>
     = Inl NameError
   \<and> ProcThread_run ''a''
     \<lparr>thread_running = False, thread_command = ''yes'', thread_timeout = Some 5,
      thread_proc = \<lparr>returncode = 0, stdout_data = Utf8 (replicate 5000 (CHR ''x'')),
                     stderr_data = Utf8 [], polled = [Exited]\<rparr>,
      thread_result = ''NONE''\<rparr>
     = Some (Inl NameError)
   \<and> join_threads ''a''
     [\<lparr>thread_running = False, thread_command = ''yes'', thread_timeout = Some 5,
      thread_proc = \<lparr>returncode = 0, stdout_data = Utf8 (replicate 5000 (CHR ''x'')),
                     stderr_data = Utf8 [], polled = [Exited]\<rparr>,
      thread_result = ''NONE''\<rparr>] [] = Some []"
  by (simp add: ProcThread_run_def send_result_def compose_result_def decode_def truthy_def
        const_defs)

subsection \<open>The subprocesses of a run\<close>










subsection \<open>An unknown key during configuration\<close>

text \<open>
  \<open>get_specs\<close> echoes and registers the messages that configure, and leaves its loop
  at a message with an unknown key, which it has echoed, with \<open>ready\<close> not set.
\<close>

lemma get_specs_loop_configures:
  "list_all (configures int_py) pre \<Longrightarrow>
     \<exists>a' commands' tmos'.
        get_specs_loop int_py (map Text pre @ rest) a commands tmos
          = get_specs_loop int_py rest a' commands' tmos'
      \<and> sent a' = sent a @ pre \<and> ready a' = ready a \<and> subthreads a' = subthreads a"
proof (induction pre arbitrary: a commands tmos)
  case Nil
  then show ?case by auto
next
  case (Cons m pre)
  let ?tokens = "split_sep TAB (filter (\<lambda>c. c \<noteq> LF) m)"
  let ?a = "a\<lparr>sent := sent a @ [m]\<rparr>"
  from Cons.prems have cm: "configures int_py m" and pre: "list_all (configures int_py) pre"
    by simp_all
  from cm have m: "m \<noteq> READY_STRING" "2 \<le> length ?tokens"
    and key: "?tokens ! 0 = ''name'' \<or> ?tokens ! 0 = ''command''
        \<or> (?tokens ! 0 = ''timeout'' \<and> int_py (?tokens ! 1) \<noteq> None)"
    by (auto simp: configures_def Let_def)
  from m have len: "\<not> length ?tokens < 2" by simp
  consider (nm) "?tokens ! 0 = ''name''"
    | (cmd) "?tokens ! 0 = ''command''"
    | (tmo) t where "?tokens ! 0 = ''timeout''" "int_py (?tokens ! 1) = Some t"
    using key by auto
  then show ?case
  proof cases
    case nm
    from Cons.IH [OF pre, of "?a\<lparr>name := ?tokens ! 1\<rparr>" commands tmos]
    show ?thesis using m len nm by (auto simp: Let_def)
  next
    case cmd
    from Cons.IH [OF pre, of ?a "commands @ [?tokens ! 1]" tmos]
    show ?thesis using m len cmd by (auto simp: Let_def)
  next
    case tmo
    show ?thesis
    proof (cases "t = TIMEOUT_NONE")
      case True
      from Cons.IH [OF pre, of ?a commands "tmos @ [None]"]
      show ?thesis using m len tmo True by (auto simp: Let_def)
    next
      case False
      from Cons.IH [OF pre,
          of "?a\<lparr>sosTimeout := (if t > sosTimeout ?a then t else sosTimeout ?a)\<rparr>"
             commands "tmos @ [Some t]"]
      show ?thesis using m len tmo False by (auto simp: Let_def)
    qed
  qed
qed

lemma get_specs_loop_unknown_key:
  "unknown_key message \<Longrightarrow>
     get_specs_loop int_py (Text message # es) a commands tmos
       = (a\<lparr>sent := sent a @ [message]\<rparr>, commands, tmos, es)"
  by (auto simp: unknown_key_def Let_def)

text \<open>
  C5, as the code has it. When, after any number of name, command and timeout
  messages, a message arrives whose key is none of the three, the agent has echoed
  every message including that one, reads nothing more, starts no subprocess (the
  loop \<open>while ready\<close> is not entered), sends the DONE token and closes the connection.
\<close>

theorem unknown_key_ends_configuration_with_DONE:
  assumes "list_all (configures int_py) pre" and "unknown_key message"
  shows "\<exists>a. serve popen int_py (map Text pre @ Text message # es) = Some (Inr a)
           \<and> sent a = pre @ [message, DONE_STRING]
           \<and> subthreads a = [] \<and> \<not> ready a"
proof -
  let ?a0 = "\<lparr>name = [], ready = False, sosTimeout = TIMEOUT_NONE, subthreads = [], sent = []\<rparr>"
  from get_specs_loop_configures [OF assms(1), of "Text message # es" ?a0 "[]" "[]"]
  obtain a' commands' tmos' where
    loop: "get_specs_loop int_py (map Text pre @ Text message # es) ?a0 [] []
          = get_specs_loop int_py (Text message # es) a' commands' tmos'"
    and a': "sent a' = pre" "\<not> ready a'" "subthreads a' = []"
    by auto
  have "get_specs int_py (map Text pre @ Text message # es) ?a0
          = (a'\<lparr>sent := sent a' @ [message]\<rparr>, commands', tmos', es)"
    using loop get_specs_loop_unknown_key [OF assms(2)] by (simp add: get_specs_def)
  with a' show ?thesis by (simp add: serve_def)
qed

theorem unknown_key_ends_configuration_with_DONE_witness:
  "list_all (configures int_of_numeral)
     [''name'' @ [TAB] @ ''t'' @ [LF], ''command'' @ [TAB] @ ''c'' @ [LF],
      ''timeout'' @ [TAB] @ ''5'' @ [LF]]
   \<and> unknown_key (''color'' @ [TAB] @ ''red'' @ [LF])
   \<and> sent_at_close
       (serve echo_hi int_of_numeral
          (map Text [''name'' @ [TAB] @ ''t'' @ [LF], ''command'' @ [TAB] @ ''c'' @ [LF],
                     ''timeout'' @ [TAB] @ ''5'' @ [LF]]
           @ Text (''color'' @ [TAB] @ ''red'' @ [LF]) # [Text READY_STRING, Text START_STRING]))
     = [''name'' @ [TAB] @ ''t'' @ [LF], ''command'' @ [TAB] @ ''c'' @ [LF],
        ''timeout'' @ [TAB] @ ''5'' @ [LF]]
       @ [''color'' @ [TAB] @ ''red'' @ [LF], DONE_STRING]"
proof -
  let ?pre = "[''name'' @ [TAB] @ ''t'' @ [LF], ''command'' @ [TAB] @ ''c'' @ [LF],
      ''timeout'' @ [TAB] @ ''5'' @ [LF]]"
  let ?m = "''color'' @ [TAB] @ ''red'' @ [LF]"
  have h1: "list_all (configures int_of_numeral) ?pre"
    by (simp add: configures_def int_of_numeral_def TAB_def LF_def READY_STRING_def)
  have h2: "unknown_key ?m"
    by (simp add: unknown_key_def TAB_def LF_def READY_STRING_def)
  from unknown_key_ends_configuration_with_DONE [OF h1 h2, of echo_hi "[Text READY_STRING, Text START_STRING]"]
  have "sent_at_close (serve echo_hi int_of_numeral
          (map Text ?pre @ Text ?m # [Text READY_STRING, Text START_STRING]))
        = ?pre @ [?m, DONE_STRING]"
    by (auto simp: sent_at_close_def)
  with h1 h2 show ?thesis by blast
qed

text \<open>
  The claim has the agent close the connection without ever sending DONE. \<open>main\<close>
  sends it after \<open>get_specs\<close> whatever \<open>ready\<close> is: on the message \<open>color<TAB>red\<close>
  the agent sends the echo and then DONE.
\<close>

theorem unknown_key_is_answered_with_DONE:
  "unknown_key (''color'' @ [TAB] @ ''red'' @ [LF])
   \<and> sent_at_close (serve echo_hi int_of_numeral [Text (''color'' @ [TAB] @ ''red'' @ [LF])])
     = [''color'' @ [TAB] @ ''red'' @ [LF], DONE_STRING]
   \<and> DONE_STRING \<in> set (sent_at_close
        (serve echo_hi int_of_numeral [Text (''color'' @ [TAB] @ ''red'' @ [LF])]))"
  by (simp add: unknown_key_def sent_at_close_def serve_def get_specs_def TAB_def LF_def
        READY_STRING_def TIMEOUT_NONE_def)

subsection \<open>The deadline of a target with a job without timeout\<close>

text \<open>
  For timeouts that are integers, as the parser makes them (\<open>TIMEOUT_NONE\<close> is 0),
  the branch \<open>== None\<close> of \<open>TestConfig.__init__\<close> is never taken and the listener
  timeout is the greatest of \<open>generalTimeout\<close> and the timeouts of the jobs.
\<close>

lemma init_commands_all_ints:
  "list_all2 (\<lambda>c t. m c = Some (Some t)) cs ts \<Longrightarrow>
     \<exists>rs'. init_commands (Some m) cs rs g = Inr (rs', Some (fold (\<lambda>t acc. max acc t) ts g))"
proof (induction cs ts arbitrary: rs g rule: list_all2_induct)
  case Nil
  then show ?case by simp
next
  case (Cons c cs t ts)
  have "(if t > g then t else g) = max g t" by simp
  with Cons show ?case by (simp add: Let_def)
qed

text \<open>
  C6. The claim: if a job of the target has the timeout NONE, \<open>listenerTimeout\<close> and
  \<open>sosTimeout\<close> are NONE. The code on a plan with the target \<open>t\<close>, the command \<open>c\<close>
  without timeout and the command \<open>d\<close> with a timeout of 5 seconds: the listener
  timeout is 5, so that the listener gives the target up after 5 seconds
  (\<open>handle_timeout\<close> takes one from \<open>timeoutsRemaining\<close>); and the agent, on the
  messages \<open>prep_agents\<close> sends for this plan, has \<open>sosTimeout\<close> 5.
\<close>

theorem job_without_timeout_does_not_lift_the_deadline:
  "TestConfig_init ''T'' 0 1 [(''t'', [''c'', ''d''])]
       [''t'' \<mapsto> [''c'' \<mapsto> Some TIMEOUT_NONE, ''d'' \<mapsto> Some 5]] = Inr mixed_timeouts_test
   \<and> listenerTimeouts mixed_timeouts_test ''t'' = Some (Some 5)
   \<and> timeoutsRemaining mixed_timeouts_test = Some 1
   \<and> remaining_at_exit
       (ListenThread_run ''t'' (Some 5) [Tick 5 NotReady] (fresh, mixed_timeouts_test)) = Some 0
   \<and> map fst (prep_messages ''t'' [''c'' \<mapsto> Some TIMEOUT_NONE, ''d'' \<mapsto> Some 5] [''c'', ''d''])
     = [''name'' @ [TAB] @ ''t'' @ [LF],
        ''command'' @ [TAB] @ ''c'' @ [LF], ''timeout'' @ [TAB] @ ''0'' @ [LF],
        ''command'' @ [TAB] @ ''d'' @ [LF], ''timeout'' @ [TAB] @ ''5'' @ [LF],
        READY_STRING]
   \<and> get_specs int_of_numeral
       (map Text [''name'' @ [TAB] @ ''t'' @ [LF],
                  ''command'' @ [TAB] @ ''c'' @ [LF], ''timeout'' @ [TAB] @ ''0'' @ [LF],
                  ''command'' @ [TAB] @ ''d'' @ [LF], ''timeout'' @ [TAB] @ ''5'' @ [LF],
                  READY_STRING])
       \<lparr>name = [], ready = False, sosTimeout = TIMEOUT_NONE, subthreads = [], sent = []\<rparr>
     = (\<lparr>name = ''t'', ready = True, sosTimeout = 5, subthreads = [],
         sent = [''name'' @ [TAB] @ ''t'' @ [LF],
                 ''command'' @ [TAB] @ ''c'' @ [LF], ''timeout'' @ [TAB] @ ''0'' @ [LF],
                 ''command'' @ [TAB] @ ''d'' @ [LF], ''timeout'' @ [TAB] @ ''5'' @ [LF],
                 READY_STRING]\<rparr>,
        [''c'', ''d''], [None, Some 5], [])"
  by (simp add: mixed_timeouts_test_def TestConfig_init_def listener_defs const_defs LF_def
        prep_messages_def str_timeout_def str_int_def str_nat.simps
        get_specs_def int_of_numeral_def)

end
